theory Spec2Isabelle
  imports Complex_Main "HOL-Library.Word"
begin

section \<open>The job publisher: scripts/publish-github-jobs.mjs\<close>

text \<open>
  A shallow embedding of the publisher script. Strings of the script are \<open>string\<close>s;
  one \<open>char\<close> stands for one code unit of the script's string, for the code units
  0..255. The few literal characters of the script beyond that range (dashes, icons) are
  the named constants below, written by their UTF-8 bytes; the script applies no
  length-sensitive operation to them. A field a record may lack is an \<open>option\<close>, \<open>None\<close>
  being the absent (\<open>undefined\<close>) field; a field that is \<open>null\<close> in the feed is not told
  apart from it, though the script interpolates it as \<open>null\<close> and dates it at the epoch.
  Amounts and times are integers here. The script computes in doubles, which agree
  with the integers on the safe integers (up to \<open>2 ^ 53 - 1\<close> either way): there
  \<open>Math.round (n / 1000)\<close> and \<open>Math.floor (ms / 3600000)\<close> are exact and a number prints
  as its decimal digits. Amounts with a fraction or beyond that range have no value in
  the model.
\<close>

subsection \<open>Strings as the script uses them\<close>

definition en_dash :: string where
  "en_dash = [CHR 0xE2, CHR 0x80, CHR 0x93]"

definition em_dash :: string where
  "em_dash = [CHR 0xE2, CHR 0x80, CHR 0x94]"

definition bullet :: string where
  "bullet = [CHR 0xE2, CHR 0x80, CHR 0xA2]"

definition light_shade :: string where
  "light_shade = [CHR 0xE2, CHR 0x96, CHR 0x91]"

definition lock_icon :: string where
  "lock_icon = [CHR 0xF0, CHR 0x9F, CHR 0x94, CHR 0x92]"

definition globe_icon :: string where
  "globe_icon = [CHR 0xF0, CHR 0x9F, CHR 0x8C, CHR 0x90]"

definition office_icon :: string where
  "office_icon = [CHR 0xF0, CHR 0x9F, CHR 0x8F, CHR 0xA2]"

text \<open>White space and line terminators, as \<open>trim\<close> and the pattern \<open>\s\<close> read them.\<close>

definition is_space :: "char \<Rightarrow> bool" where
  "is_space c = (c \<in> set [CHR 0x09, CHR 0x0A, CHR 0x0B, CHR 0x0C, CHR 0x0D, CHR 0x20, CHR 0xA0])"

definition is_digit :: "char \<Rightarrow> bool" where
  "is_digit c = (c \<in> set ''0123456789'')"

definition is_lower :: "char \<Rightarrow> bool" where
  "is_lower c = (c \<in> set ''abcdefghijklmnopqrstuvwxyz'')"

definition is_upper :: "char \<Rightarrow> bool" where
  "is_upper c = (c \<in> set ''ABCDEFGHIJKLMNOPQRSTUVWXYZ'')"

text \<open>The pattern \<open>\w\<close>.\<close>

definition is_word :: "char \<Rightarrow> bool" where
  "is_word c = (is_lower c \<or> is_upper c \<or> is_digit c \<or> c = CHR ''_'')"

text \<open>\<open>toLowerCase\<close> on one code unit: only the letters A to Z have a lower case below 128.\<close>

definition to_lower :: "char \<Rightarrow> char" where
  "to_lower c =
     (case map_of (zip ''ABCDEFGHIJKLMNOPQRSTUVWXYZ'' ''abcdefghijklmnopqrstuvwxyz'') c of
        Some l \<Rightarrow> l
      | None \<Rightarrow> c)"

definition js_trim :: "string \<Rightarrow> string" where
  "js_trim s = rev (dropWhile is_space (rev (dropWhile is_space s)))"

text \<open>\<open>s.split (c)\<close> for a one-character separator: never the empty list.\<close>

fun js_split :: "char \<Rightarrow> string \<Rightarrow> string list" where
  "js_split c [] = [[]]"
| "js_split c (x # xs) =
     (if x = c then [] # js_split c xs
      else (case js_split c xs of
              [] \<Rightarrow> [[x]]
            | p # ps \<Rightarrow> (x # p) # ps))"

fun js_join :: "string \<Rightarrow> string list \<Rightarrow> string" where
  "js_join sep [] = []"
| "js_join sep [x] = x"
| "js_join sep (x # y # ys) = x @ sep @ js_join sep (y # ys)"

text \<open>A number in a template literal: its decimal digits.\<close>

definition digit :: "nat \<Rightarrow> char" where
  "digit d = ''0123456789'' ! d"

fun digits :: "nat \<Rightarrow> string" where
  "digits n = (if n < 10 then [digit n] else digits (n div 10) @ [digit (n mod 10)])"

declare digits.simps [simp del]

definition show_int :: "int \<Rightarrow> string" where
  "show_int i = (if i < 0 then CHR ''-'' # digits (nat (- i)) else digits (nat i))"

text \<open>Truthiness of an optional string and of an optional number.\<close>

definition truthy :: "string option \<Rightarrow> bool" where
  "truthy v = (case v of None \<Rightarrow> False | Some s \<Rightarrow> s \<noteq> [])"

definition nonzero :: "int option \<Rightarrow> bool" where
  "nonzero v = (case v of None \<Rightarrow> False | Some n \<Rightarrow> n \<noteq> 0)"

text \<open>\<open>v || d\<close> for an optional string, and \<open>${v}\<close> in a template literal (of a field
  that is a string or absent).\<close>

definition or_else :: "string option \<Rightarrow> string \<Rightarrow> string" where
  "or_else v d = (case v of None \<Rightarrow> d | Some s \<Rightarrow> if s = [] then d else s)"

definition interpolate :: "string option \<Rightarrow> string" where
  "interpolate v = (case v of None \<Rightarrow> ''undefined'' | Some s \<Rightarrow> s)"

subsection \<open>The job record\<close>

record job =
  job_id :: "string option"
  title :: "string option"
  company :: "string option"
  region :: "string option"
  isRemote :: bool
  location :: "string option"
  salary :: "string option"
  salaryMin :: "int option"
  salaryMax :: "int option"
  skills :: "string option"
  seniority :: "string option"
  ats :: "string option"
  verifiedAt :: "string option"
  scrapedAt :: "string option"
  visibility :: "string option"

definition REF :: string where
  "REF = ''github''"

subsection \<open>Formatting helpers\<close>

text \<open>The integers on which the doubles of the script are exact.\<close>

definition safe_integer :: "int \<Rightarrow> bool" where
  "safe_integer n = (- 9007199254740991 \<le> n \<and> n \<le> 9007199254740991)"

text \<open>\<open>fmtK\<close>, for a safe integer: \<open>Math.round (n / 1000)\<close> rounds to the nearest integer,
  a half upwards.\<close>

definition fmtK :: "int \<Rightarrow> string" where
  "fmtK n =
     (if n \<ge> 1000 then ''$'' @ show_int ((n + 500) div 1000) @ ''k''
      else ''$'' @ show_int n)"

definition fmtSalary :: "job \<Rightarrow> string" where
  "fmtSalary j =
     (if nonzero (salaryMin j) \<and> nonzero (salaryMax j) \<and> salaryMin j = salaryMax j
      then fmtK (the (salaryMin j)) @ ''/year''
      else if nonzero (salaryMin j) \<and> nonzero (salaryMax j)
      then fmtK (the (salaryMin j)) @ en_dash @ fmtK (the (salaryMax j)) @ ''/year''
      else if nonzero (salaryMin j) then fmtK (the (salaryMin j)) @ ''+/year''
      else if nonzero (salaryMax j) then fmtK (the (salaryMax j)) @ ''/year''
      else '''')"

text \<open>
  What the script takes from its host, given here as data:
  \<^item> \<open>now\<close> is \<open>Date.now ()\<close> in milliseconds, \<open>parseDate s\<close> is
    \<open>new Date (s).getTime ()\<close>, \<open>None\<close> for the invalid date (NaN), and \<open>stamp\<close> is
    \<open>fmtDateTime (new Date ().toISOString ())\<close>;
  \<^item> \<open>encodeURIComponent\<close> is the built-in of that name, and \<open>numberToString\<close> is the
    text of a finite number;
  \<^item> \<open>JSON_parse\<close> is \<open>JSON.parse\<close> on one line of the feed, read as far as the script
    looks at the value (see \<open>parsed\<close> below);
  \<^item> \<open>fetch n\<close> is what the \<open>n\<close>-th call of \<open>fetch\<close> does;
  \<^item> \<open>gitLog t limit\<close> is the output of the \<open>git log\<close> command in the directory of
    target \<open>t\<close>, \<open>None\<close> when \<open>execSync\<close> throws;
  \<^item> \<open>DRY_RUN\<close> is the command-line switch, and \<open>canWrite p\<close> tells whether
    \<open>mkdirSync\<close> and \<open>writeFileSync\<close> succeed for the path \<open>p\<close>.
\<close>

datatype target = Main_repo | Emea_repo | Apac_repo

datatype out_file = README_md | Jobs_json | Commit_msg_txt

type_synonym path = "target \<times> out_file"

type_synonym logos = "string \<Rightarrow> string option"

record meta =
  companyLogos :: "logos option"

text \<open>
  A parsed line: \<open>Malformed\<close> when \<open>JSON.parse\<close> throws, \<open>JNull\<close> for the value
  \<open>null\<close> (reading its \<open>type\<close> throws), an envelope of type meta, an envelope of type job
  with its payload \<open>d\<close>, and \<open>JOther\<close> for every other value.
\<close>

datatype parsed = Malformed | JNull | JMeta meta | JJob job | JOther

record response =
  status :: nat
  body :: "string option"

text \<open>A call of \<open>fetch\<close> rejects (network failure, timeout) or resolves to a response;
  the \<open>body\<close> of a response is \<open>None\<close> when reading it rejects.\<close>

datatype outcome = Rejected string | Responded response

record world =
  now :: int
  parseDate :: "string \<Rightarrow> int option"
  stamp :: string
  encodeURIComponent :: "string \<Rightarrow> string"
  numberToString :: "rat \<Rightarrow> string"
  JSON_parse :: "string \<Rightarrow> parsed"
  fetch :: "nat \<Rightarrow> outcome"
  gitLog :: "target \<Rightarrow> nat \<Rightarrow> string option"
  DRY_RUN :: bool
  canWrite :: "path \<Rightarrow> bool"

text \<open>What the script throws.\<close>

datatype error =
    HttpError nat string
  | FetchFailed string
  | SyntaxError
  | TypeError
  | ExecFailed
  | WriteFailed path

text \<open>\<open>new Date (v).getTime ()\<close> of an optional field: the absent field is no date.\<close>

definition getTime :: "world \<Rightarrow> string option \<Rightarrow> int option" where
  "getTime w v = (case v of None \<Rightarrow> None | Some s \<Rightarrow> parseDate w s)"

text \<open>
  \<open>fmtAge\<close> takes whatever the feed holds in \<open>scrapedAt\<close>: any value of JSON, or nothing.
  \<open>VInf\<close> is a number literal beyond the doubles, which \<open>JSON.parse\<close> reads as an
  infinity (\<open>True\<close> for the negative one).
\<close>

datatype jsval =
    VUndefined
  | VNull
  | VBool bool
  | VNum rat
  | VInf bool
  | VStr string
  | VArr "jsval list"
  | VObj "(string \<times> jsval) list"

text \<open>\<open>!v\<close>.\<close>

definition falsy :: "jsval \<Rightarrow> bool" where
  "falsy v =
     (v = VUndefined \<or> v = VNull \<or> v = VBool False \<or> v = VNum 0 \<or> v = VStr '''')"

text \<open>
  The text of a value, as the conversion to a primitive gives it. An array is joined
  with commas, \<open>null\<close> and \<open>undefined\<close> elements giving no text. An object of the feed
  inherits \<open>toString\<close> and \<open>valueOf\<close>; its own property \<open>toString\<close>, if it has one, is
  not a function and hides the inherited one, \<open>valueOf\<close> gives back the object, and the
  conversion throws a TypeError. Limits of the engine, such as the depth of nesting it
  can convert, are left out.
\<close>

fun to_text :: "world \<Rightarrow> jsval \<Rightarrow> error + string" where
  "to_text w VUndefined = Inr ''undefined''"
| "to_text w VNull = Inr ''null''"
| "to_text w (VBool b) = Inr (if b then ''true'' else ''false'')"
| "to_text w (VNum r) = Inr (numberToString w r)"
| "to_text w (VInf negative) = Inr (if negative then ''-Infinity'' else ''Infinity'')"
| "to_text w (VStr s) = Inr s"
| "to_text w (VArr xs) =
     (let ts = map (\<lambda>x. if x = VUndefined \<or> x = VNull then Inr [] else to_text w x) xs
      in if list_ex isl ts then Inl TypeError else Inr (js_join '','' (map projr ts)))"
| "to_text w (VObj kvs) =
     (if ''toString'' \<in> set (map fst kvs) then Inl TypeError else Inr ''[object Object]'')"

text \<open>The time value of a number: none beyond the range of dates, else the number
  without its fraction.\<close>

definition timeClip :: "rat \<Rightarrow> int option" where
  "timeClip r =
     (if \<bar>r\<bar> > 8640000000000000 then None
      else Some (if r < 0 then - \<lfloor>- r\<rfloor> else \<lfloor>r\<rfloor>))"

text \<open>\<open>new Date (v).getTime ()\<close>: \<open>Inr None\<close> is the invalid date (NaN).\<close>

definition date_value :: "world \<Rightarrow> jsval \<Rightarrow> error + int option" where
  "date_value w v =
     (case v of
        VUndefined \<Rightarrow> Inr None
      | VNull \<Rightarrow> Inr (Some 0)
      | VBool b \<Rightarrow> Inr (Some (if b then 1 else 0))
      | VNum r \<Rightarrow> Inr (timeClip r)
      | VInf negative \<Rightarrow> Inr None
      | VStr s \<Rightarrow> Inr (parseDate w s)
      | _ \<Rightarrow> (case to_text w v of Inl e \<Rightarrow> Inl e | Inr s \<Rightarrow> Inr (parseDate w s)))"

text \<open>The age of an elapsed time in milliseconds.\<close>

definition age_text :: "int \<Rightarrow> string" where
  "age_text ms =
     (let hours = ms div (1000 * 60 * 60)
      in if hours < 1 then ''<1h''
         else if hours < 24 then show_int hours @ ''h''
         else (let days = hours div 24
               in if days = 1 then ''1d'' else show_int days @ ''d''))"

text \<open>
  \<open>fmtAge\<close>: \<open>Inl\<close> what it throws. With an invalid date every comparison of the script
  is false and the result is the text of NaN with the day suffix.
\<close>

definition fmtAge :: "world \<Rightarrow> jsval \<Rightarrow> error + string" where
  "fmtAge w dateStr =
     (if falsy dateStr then Inr ''''
      else (case date_value w dateStr of
              Inl e \<Rightarrow> Inl e
            | Inr None \<Rightarrow> Inr ''NaNd''
            | Inr (Some t) \<Rightarrow> Inr (age_text (now w - t))))"

text \<open>The value of a field of a job record, which is a string or absent, and \<open>fmtAge\<close>
  on such a field, where it throws nothing.\<close>

definition field_value :: "string option \<Rightarrow> jsval" where
  "field_value v = (case v of None \<Rightarrow> VUndefined | Some s \<Rightarrow> VStr s)"

definition fmtAge_field :: "world \<Rightarrow> string option \<Rightarrow> string" where
  "fmtAge_field w v = (case fmtAge w (field_value v) of Inl e \<Rightarrow> '''' | Inr a \<Rightarrow> a)"

subsection \<open>Regular expressions of the script\<close>

text \<open>
  The script's patterns use character classes, sequence, alternation, the greedy \<open>?\<close>
  and the greedy \<open>+\<close> on a character class. \<open>rmatch r s\<close> lists what is left of \<open>s\<close>
  after each way \<open>r\<close> matches a prefix of it, in the order in which the backtracking
  matcher tries them.
\<close>

datatype regex =
    Chr "char \<Rightarrow> bool"
  | Eps
  | Seq regex regex
  | Alt regex regex
  | Opt regex
  | Plus "char \<Rightarrow> bool"

fun rmatch :: "regex \<Rightarrow> string \<Rightarrow> string list" where
  "rmatch (Chr p) s = (case s of [] \<Rightarrow> [] | c # cs \<Rightarrow> if p c then [cs] else [])"
| "rmatch Eps s = [s]"
| "rmatch (Seq a b) s = concat (map (rmatch b) (rmatch a s))"
| "rmatch (Alt a b) s = rmatch a s @ rmatch b s"
| "rmatch (Opt a) s = rmatch a s @ [s]"
| "rmatch (Plus p) s = map (\<lambda>k. drop k s) (rev [1 ..< Suc (length (takeWhile p s))])"

fun seqs :: "regex list \<Rightarrow> regex" where
  "seqs [] = Eps"
| "seqs [r] = r"
| "seqs (r # rs) = Seq r (seqs rs)"

fun alts :: "regex list \<Rightarrow> regex" where
  "alts [] = Chr (\<lambda>c. False)"
| "alts [r] = r"
| "alts (r # rs) = Alt r (alts rs)"

text \<open>A literal, and a literal under the flag \<open>i\<close> (given in lower case).\<close>

definition lit :: "string \<Rightarrow> regex" where
  "lit s = seqs (map (\<lambda>c. Chr (\<lambda>x. x = c)) s)"

definition lit_i :: "string \<Rightarrow> regex" where
  "lit_i s = seqs (map (\<lambda>c. Chr (\<lambda>x. to_lower x = c)) s)"

text \<open>\<open>/^r$/.test (s)\<close>, \<open>/^r/.test (s)\<close>, and the text of the first match of \<open>r\<close> at the
  start of \<open>s\<close>.\<close>

definition test_full :: "regex \<Rightarrow> string \<Rightarrow> bool" where
  "test_full r s = ([] \<in> set (rmatch r s))"

definition test_prefix :: "regex \<Rightarrow> string \<Rightarrow> bool" where
  "test_prefix r s = (rmatch r s \<noteq> [])"

definition match_here :: "regex \<Rightarrow> string \<Rightarrow> string option" where
  "match_here r s =
     (case rmatch r s of [] \<Rightarrow> None | t # _ \<Rightarrow> Some (take (length s - length t) s))"

text \<open>An unanchored pattern is tried at each position from the left.\<close>

fun search :: "(string \<Rightarrow> 'a option) \<Rightarrow> string \<Rightarrow> 'a option" where
  "search f [] = f []"
| "search f (x # xs) = (case f (x # xs) of Some r \<Rightarrow> Some r | None \<Rightarrow> search f xs)"

subsection \<open>The garbage title filter\<close>

definition GARBAGE_TITLES :: regex where
  "GARBAGE_TITLES = alts
     [seqs [lit_i ''career'', Opt (lit_i ''s'')],
      seqs [lit_i ''job'', Plus is_space, lit_i ''opening'', Opt (lit_i ''s'')],
      seqs [lit_i ''open'', Plus is_space, lit_i ''position'', Opt (lit_i ''s'')],
      seqs [lit_i ''position'', Opt (lit_i ''s'')],
      seqs [lit_i ''current'', Plus is_space, Opt (seqs [lit_i ''job'', Plus is_space]),
            lit_i ''opening'', Opt (lit_i ''s'')],
      seqs [lit_i ''join'', Plus is_space, lit_i ''our'', Plus is_space, lit_i ''team''],
      seqs [lit_i ''work'', Plus is_space, alts [lit_i ''with'', lit_i ''at'', lit_i ''for''],
            Plus is_space, lit_i ''us'']]"

definition isGarbageJob :: "job \<Rightarrow> bool" where
  "isGarbageJob j = test_full GARBAGE_TITLES (js_trim (or_else (title j) ''''))"

subsection \<open>Grouping by region\<close>

record groups =
  WW :: "job list"
  EMEA :: "job list"
  APAC :: "job list"
  NA :: "job list"
  LATAM :: "job list"

definition no_groups :: groups where
  "no_groups = \<lparr>WW = [], EMEA = [], APAC = [], NA = [], LATAM = []\<rparr>"

text \<open>
  \<open>groups\<close> is an object literal, so \<open>groups[region]\<close> also finds the properties every
  object inherits. Each of them is truthy and none has a \<open>push\<close>: calling it throws a
  TypeError.
\<close>

definition inherited_properties :: "string list" where
  "inherited_properties =
     [''constructor'', ''toString'', ''toLocaleString'', ''valueOf'', ''hasOwnProperty'',
      ''isPrototypeOf'', ''propertyIsEnumerable'', ''__proto__'', ''__defineGetter__'',
      ''__defineSetter__'', ''__lookupGetter__'', ''__lookupSetter__'']"

text \<open>One turn of the loop of \<open>groupByRegion\<close>.\<close>

definition groupByRegion_step :: "job \<Rightarrow> groups \<Rightarrow> error + groups" where
  "groupByRegion_step j g =
     (if isGarbageJob j then Inr g
      else (let r = or_else (region j) ''WW''
            in if r = ''WW'' then (if isRemote j then Inr (g\<lparr>WW := WW g @ [j]\<rparr>) else Inr g)
               else if r = ''EMEA'' then Inr (g\<lparr>EMEA := EMEA g @ [j]\<rparr>)
               else if r = ''APAC'' then Inr (g\<lparr>APAC := APAC g @ [j]\<rparr>)
               else if r = ''NA'' then Inr (g\<lparr>NA := NA g @ [j]\<rparr>)
               else if r = ''LATAM'' then Inr (g\<lparr>LATAM := LATAM g @ [j]\<rparr>)
               else if r \<in> set inherited_properties then Inl TypeError
               else Inr g))"

fun groupByRegion_loop :: "job list \<Rightarrow> groups \<Rightarrow> error + groups" where
  "groupByRegion_loop [] g = Inr g"
| "groupByRegion_loop (j # js) g =
     (case groupByRegion_step j g of
        Inl e \<Rightarrow> Inl e
      | Inr g' \<Rightarrow> groupByRegion_loop js g')"

definition groupByRegion :: "job list \<Rightarrow> error + groups" where
  "groupByRegion jobs = groupByRegion_loop jobs no_groups"

subsection \<open>Links and cells\<close>

text \<open>\<open>slugify\<close>: lower case, every run of other characters becomes one hyphen, hyphens
  at both ends go, and the first 80 characters stay.\<close>

definition is_alnum_lower :: "char \<Rightarrow> bool" where
  "is_alnum_lower c = (is_lower c \<or> is_digit c)"

function hyphenate :: "string \<Rightarrow> string" where
  "hyphenate [] = []"
| "hyphenate (c # cs) =
     (if is_alnum_lower c then c # hyphenate cs
      else CHR ''-'' # hyphenate (dropWhile (\<lambda>x. \<not> is_alnum_lower x) cs))"
  by pat_completeness auto
termination
  by (relation "measure length") (auto simp: less_Suc_eq_le length_dropWhile_le)

definition strip_hyphens :: "string \<Rightarrow> string" where
  "strip_hyphens s =
     rev (dropWhile (\<lambda>c. c = CHR ''-'') (rev (dropWhile (\<lambda>c. c = CHR ''-'') s)))"

definition slugify :: "string \<Rightarrow> string" where
  "slugify text = take 80 (strip_hyphens (hyphenate (map to_lower text)))"

definition jobUrl :: "job \<Rightarrow> string" where
  "jobUrl j =
     (let slug = slugify (interpolate (title j) @ '' at '' @ interpolate (company j))
      in ''https://wagey.gg/jobs/'' @ interpolate (job_id j)
         @ (if slug \<noteq> [] then ''-'' @ slug else [])
         @ ''?ref='' @ REF)"

text \<open>\<open>esc\<close>: a pipe gets a backslash before it, a newline becomes a space.\<close>

definition esc :: "string option \<Rightarrow> string" where
  "esc str =
     concat (map (\<lambda>c. if c = CHR ''|'' then [CHR 0x5C, CHR ''|'']
                       else if c = CHR 0x0A then '' '' else [c])
                 (or_else str ''''))"

definition normalizeName :: "string option \<Rightarrow> string" where
  "normalizeName name = filter is_alnum_lower (map to_lower (or_else name ''''))"

definition PLACEHOLDER_LOGO :: string where
  "PLACEHOLDER_LOGO = ''https://wagey.gg/api/company-logo?name=_placeholder''"

definition companyCell :: "world \<Rightarrow> job \<Rightarrow> logos \<Rightarrow> string" where
  \<open>companyCell w j logos =
     (let name = take 25 (esc (company j));
          normalized = normalizeName (company j);
          logoId = logos normalized;
          logoUrl = (if truthy logoId
                     then ''https://wagey.gg/api/company-logo?id=''
                          @ encodeURIComponent w (the logoId)
                     else PLACEHOLDER_LOGO)
      in ''<img src="'' @ logoUrl @ ''" alt="" height="16"> '' @ name)\<close>

definition fmtRole :: "string option \<Rightarrow> string" where
  "fmtRole t = (let e = esc t in if length e > 40 then take 37 e @ ''...'' else e)"

definition applyCell :: "job \<Rightarrow> string" where
  "applyCell j =
     (if visibility j = Some ''teaser''
      then ''['' @ lock_icon @ '' Pro](https://wagey.gg/pricing?ref='' @ REF @ '')''
      else ''[Apply]('' @ jobUrl j @ '')'')"

text \<open>\<open>teaserMask\<close>: the hash is kept in 32 bits by \<open>| 0\<close> in every turn.\<close>

definition teaserHash :: "string \<Rightarrow> 32 word" where
  "teaserHash s = foldl (\<lambda>h c. push_bit 5 h - h + of_nat (of_char c)) 0 s"

definition teaserMask :: "job \<Rightarrow> string" where
  "teaserMask j =
     (let s = or_else (title j) (or_else (job_id j) '''');
          h = teaserHash s;
          len = 4 + nat (\<bar>sint h\<bar> mod 9)
      in concat (replicate len light_shade))"

subsection \<open>Sorting\<close>

text \<open>
  \<open>Array.prototype.sort\<close> is stable. \<open>sort_by\<close> is the stable sort by insertion; a
  comparison that yields NaN counts as 0, as the built-in reads it. Where every record
  has a parseable \<open>scrapedAt\<close> the comparison is consistent and this is the order of
  the script. Where one has not, the comparison is not consistent and the order is
  the engine's own, any permutation of the list; the model then gives one of them, and
  nothing below rests on which.
\<close>

fun insert_by :: "('a \<Rightarrow> 'a \<Rightarrow> int) \<Rightarrow> 'a \<Rightarrow> 'a list \<Rightarrow> 'a list" where
  "insert_by cmp x [] = [x]"
| "insert_by cmp x (y # ys) = (if cmp x y \<le> 0 then x # y # ys else y # insert_by cmp x ys)"

definition sort_by :: "('a \<Rightarrow> 'a \<Rightarrow> int) \<Rightarrow> 'a list \<Rightarrow> 'a list" where
  "sort_by cmp xs = foldr (insert_by cmp) xs []"

definition freshness :: "world \<Rightarrow> job \<Rightarrow> job \<Rightarrow> int" where
  "freshness w a b =
     (case (getTime w (scrapedAt b), getTime w (scrapedAt a)) of
        (Some tb, Some ta) \<Rightarrow> tb - ta
      | _ \<Rightarrow> 0)"

definition sortJobs :: "world \<Rightarrow> job list \<Rightarrow> job list" where
  "sortJobs w jobs = sort_by (freshness w) jobs"

subsection \<open>The job table\<close>

definition jobRow :: "world \<Rightarrow> logos \<Rightarrow> job \<Rightarrow> string" where
  "jobRow w logos j =
     (let isTeaser = (visibility j = Some ''teaser'');
          company = (if isTeaser then lock_icon @ '' '' @ teaserMask j else companyCell w j logos);
          roleTitle = fmtRole (title j);
          remote = (if isRemote j then globe_icon else office_icon);
          rawLoc = js_trim (or_else (location j) '''');
          loc = (if rawLoc = [] \<or> test_prefix (lit_i ''unknown'') rawLoc then ''''
                 else take 35 (esc (Some rawLoc)));
          locPart = (if loc \<noteq> [] then loc @ '' '' @ bullet @ '' '' else '''');
          debug = '' <br><sub>'' @ remote @ '' '' @ locPart @ or_else (region j) ''?'' @ ''</sub>'';
          role = roleTitle @ debug;
          salary = fmtSalary j;
          age = fmtAge_field w (scrapedAt j);
          link = applyCell j
      in ''| '' @ company @ '' | '' @ role @ '' | '' @ salary @ '' | '' @ age @ '' | '' @ link @ '' |'')"

text \<open>The jobs a table shows (\<open>sorted\<close> in the script) and the rows pushed for them.\<close>

definition jobTable_sorted :: "world \<Rightarrow> job list \<Rightarrow> nat \<Rightarrow> job list" where
  "jobTable_sorted w jobs limit = take limit (sortJobs w jobs)"

definition jobTable_rows :: "world \<Rightarrow> job list \<Rightarrow> logos \<Rightarrow> nat \<Rightarrow> string list" where
  "jobTable_rows w jobs logos limit = map (jobRow w logos) (jobTable_sorted w jobs limit)"

definition jobTable :: "world \<Rightarrow> job list \<Rightarrow> logos \<Rightarrow> nat \<Rightarrow> string" where
  "jobTable w jobs logos limit =
     (if jobTable_sorted w jobs limit = [] then ''*No jobs currently listed.*'' @ [CHR 0x0A]
      else js_join [CHR 0x0A]
             ([''| Company | Role | Salary USD | Age | |'',
               ''|---------|------|------------|-----|---|'']
              @ jobTable_rows w jobs logos limit)
           @ [CHR 0x0A])"

text \<open>The default of the parameter \<open>limit\<close>.\<close>

definition default_limit :: nat where
  "default_limit = 500"

text \<open>The salary predicate and the verified predicate of the summaries.\<close>

definition hasSalary :: "job \<Rightarrow> bool" where
  "hasSalary j = (nonzero (salaryMin j) \<or> nonzero (salaryMax j) \<or> truthy (salary j))"

definition isVerified :: "job \<Rightarrow> bool" where
  "isVerified j = truthy (verifiedAt j)"

subsection \<open>The machine-readable export\<close>

text \<open>
  \<open>parseSkills\<close>. The pattern takes the shortest non-empty beginning without a line
  terminator after which the entry ends, or ends in one parenthesised annotation.
\<close>

definition is_annotation :: "string \<Rightarrow> bool" where
  "is_annotation t =
     (case t of
        [] \<Rightarrow> False
      | c # cs \<Rightarrow> c = CHR ''('' \<and> cs \<noteq> [] \<and> last cs = CHR '')'' \<and> butlast cs \<noteq> []
                  \<and> CHR '')'' \<notin> set (butlast cs))"

definition skill_match :: "string \<Rightarrow> string option" where
  "skill_match s =
     map_option (\<lambda>k. take k s)
       (find (\<lambda>k. (\<forall>c \<in> set (take k s). c \<noteq> CHR 0x0A \<and> c \<noteq> CHR 0x0D)
                   \<and> (drop k s = [] \<or> is_annotation (drop k s)))
             [1 ..< Suc (length s)])"

definition skill_name :: "string \<Rightarrow> string" where
  "skill_name s =
     (case skill_match (js_trim s) of Some m \<Rightarrow> js_trim m | None \<Rightarrow> js_trim s)"

definition parseSkills :: "string option \<Rightarrow> string list" where
  "parseSkills str =
     (if \<not> truthy str then []
      else filter (\<lambda>s. s \<noteq> []) (map skill_name (js_split (CHR '','') (the str))))"

record export =
  e_id :: "string option"
  e_title :: "string option"
  e_company :: "string option"
  e_region :: "string option"
  e_salary :: string
  e_salaryMin :: "int option"
  e_salaryMax :: "int option"
  e_skills :: "string list"
  e_seniority :: "string option"
  e_ats :: "string option"
  e_verifiedAt :: "string option"
  e_scrapedAt :: "string option"
  e_url :: "string option"
  e_visibility :: string

text \<open>\<open>v || null\<close>.\<close>

definition or_null :: "string option \<Rightarrow> string option" where
  "or_null v = (if truthy v then v else None)"

definition num_or_null :: "int option \<Rightarrow> int option" where
  "num_or_null v = (if nonzero v then v else None)"

definition exportJob :: "job \<Rightarrow> export" where
  "exportJob j =
     (let isTeaser = (visibility j = Some ''teaser'')
      in \<lparr>e_id = job_id j,
          e_title = title j,
          e_company = (if isTeaser then None else company j),
          e_region = region j,
          e_salary = fmtSalary j,
          e_salaryMin = num_or_null (salaryMin j),
          e_salaryMax = num_or_null (salaryMax j),
          e_skills = parseSkills (skills j),
          e_seniority = or_null (seniority j),
          e_ats = or_null (ats j),
          e_verifiedAt = or_null (verifiedAt j),
          e_scrapedAt = or_null (scrapedAt j),
          e_url = (if isTeaser then None else Some (jobUrl j)),
          e_visibility = or_else (visibility j) ''full''\<rparr>)"

definition buildDataJson :: "job list \<Rightarrow> export list" where
  "buildDataJson jobs = map exportJob jobs"

subsection \<open>Fetching the feed\<close>

definition MAX_RETRIES :: nat where
  "MAX_RETRIES = 5"

definition INITIAL_DELAY_MS :: nat where
  "INITIAL_DELAY_MS = 3000"

definition backoff :: "nat \<Rightarrow> nat" where
  "backoff attempt = INITIAL_DELAY_MS * 2 ^ (attempt - 1)"

definition ok :: "response \<Rightarrow> bool" where
  "ok r = (200 \<le> status r \<and> status r \<le> 299)"

text \<open>The non-blank lines of a body.\<close>

definition feed_lines :: "string \<Rightarrow> string list" where
  "feed_lines text = filter (\<lambda>l. js_trim l \<noteq> []) (js_split (CHR 0x0A) text)"

type_synonym fetched = "job list \<times> meta option"

text \<open>The loop over the lines: the first line that fails ends it.\<close>

fun parse_lines :: "(string \<Rightarrow> parsed) \<Rightarrow> string list \<Rightarrow> job list \<Rightarrow> meta option
                    \<Rightarrow> error + fetched" where
  "parse_lines P [] jobs m = Inr (jobs, m)"
| "parse_lines P (l # ls) jobs m =
     (case P l of
        Malformed \<Rightarrow> Inl SyntaxError
      | JNull \<Rightarrow> Inl TypeError
      | JMeta obj \<Rightarrow> parse_lines P ls jobs (Some obj)
      | JJob d \<Rightarrow> parse_lines P ls (jobs @ [d]) m
      | JOther \<Rightarrow> parse_lines P ls jobs m)"

text \<open>How one turn of the retry loop ends: it sleeps and goes on, it returns, or it
  throws.\<close>

datatype turn = Continue nat | Return fetched | Throw error

text \<open>The body of \<open>try\<close> in the turn \<open>attempt\<close>, given what the call of \<open>fetch\<close> did.\<close>

definition try_block :: "world \<Rightarrow> nat \<Rightarrow> turn" where
  "try_block w attempt =
     (case fetch w attempt of
        Rejected reason \<Rightarrow> Throw (FetchFailed reason)
      | Responded resp \<Rightarrow>
          if \<not> ok resp then
            (let text = (case body resp of None \<Rightarrow> ''(no body)'' | Some b \<Rightarrow> b);
                 isRetryable = (status resp \<ge> 500 \<or> status resp = 429)
             in if isRetryable \<and> attempt < MAX_RETRIES then Continue (backoff attempt)
                else Throw (HttpError (status resp) (take 500 text)))
          else
            (case body resp of
               None \<Rightarrow> Throw (FetchFailed ''body'')
             | Some text \<Rightarrow>
                 (case parse_lines (JSON_parse w) (feed_lines text) [] None of
                    Inl e \<Rightarrow> Throw e
                  | Inr r \<Rightarrow> Return r)))"

text \<open>The handler of \<open>catch\<close>: it takes whatever the body of \<open>try\<close> threw.\<close>

definition catch_block :: "nat \<Rightarrow> turn \<Rightarrow> turn" where
  "catch_block attempt t =
     (case t of
        Throw err \<Rightarrow> if attempt < MAX_RETRIES then Continue (backoff attempt) else Throw err
      | _ \<Rightarrow> t)"

text \<open>
  A run of \<open>fetchJobs\<close>: its result (\<open>Inl\<close> what it throws, \<open>Inr None\<close> when the loop
  ends without a \<open>return\<close>), the calls of \<open>fetch\<close> made, and the delays slept, in order.
\<close>

record fetch_run =
  result :: "error + fetched option"
  attempts :: nat
  sleeps :: "nat list"

function fetchJobs_loop :: "world \<Rightarrow> nat \<Rightarrow> nat list \<Rightarrow> fetch_run" where
  "fetchJobs_loop w attempt slept =
     (if attempt \<le> MAX_RETRIES then
        (case catch_block attempt (try_block w attempt) of
           Continue delay \<Rightarrow> fetchJobs_loop w (attempt + 1) (slept @ [delay])
         | Return r \<Rightarrow> \<lparr>result = Inr (Some r), attempts = attempt, sleeps = slept\<rparr>
         | Throw err \<Rightarrow> \<lparr>result = Inl err, attempts = attempt, sleeps = slept\<rparr>)
      else \<lparr>result = Inr None, attempts = attempt - 1, sleeps = slept\<rparr>)"
  by pat_completeness auto
termination
  by (relation "measure (\<lambda>(w, attempt, slept). Suc MAX_RETRIES - attempt)") auto

declare fetchJobs_loop.simps [simp del]

definition fetchJobs :: "world \<Rightarrow> fetch_run" where
  "fetchJobs w = fetchJobs_loop w 1 []"

subsection \<open>The update history\<close>

definition HISTORY_LIMIT :: nat where
  "HISTORY_LIMIT = 42"

record log_entry =
  hash :: string
  date :: "string option"
  message :: string

definition log_line :: "string \<Rightarrow> log_entry" where
  "log_line line =
     (let parts = js_split (CHR ''|'') line
      in \<lparr>hash = (case parts of [] \<Rightarrow> [] | h # _ \<Rightarrow> h),
          date = (case drop 1 parts of [] \<Rightarrow> None | d # _ \<Rightarrow> Some d),
          message = js_join ''|'' (drop 2 parts)\<rparr>)"

text \<open>The body of \<open>try\<close> in \<open>readGitLog\<close>, which throws when the command fails, and
  \<open>readGitLog\<close>, whose handler takes whatever is thrown and returns no entry.\<close>

definition readGitLog_try :: "world \<Rightarrow> target \<Rightarrow> nat \<Rightarrow> error + log_entry list" where
  "readGitLog_try w repo limit =
     (case gitLog w repo limit of
        None \<Rightarrow> Inl ExecFailed
      | Some out \<Rightarrow>
          (let raw = js_trim out
           in if raw = [] then Inr [] else Inr (map log_line (js_split (CHR 0x0A) raw))))"

definition readGitLog :: "world \<Rightarrow> target \<Rightarrow> nat \<Rightarrow> log_entry list" where
  "readGitLog w repo limit =
     (case readGitLog_try w repo limit of Inl err \<Rightarrow> [] | Inr entries \<Rightarrow> entries)"

text \<open>\<open>extractJobCount\<close>: the first group of the leftmost match.\<close>

definition job_count_here :: "string \<Rightarrow> string option" where
  "job_count_here s =
     (case filter (\<lambda>t. test_prefix
                          (seqs [Plus is_space, Opt (alts [lit ''EMEA '', lit ''APAC '']),
                                 lit ''jobs'']) t)
                  (rmatch (Plus (\<lambda>c. is_digit c \<or> c = CHR '','')) s) of
        [] \<Rightarrow> None
      | t # _ \<Rightarrow> Some (take (length s - length t) s))"

definition extractJobCount :: "string \<Rightarrow> string option" where
  "extractJobCount msg = search job_count_here msg"

text \<open>\<open>extractTimestamp\<close>: the whole of the leftmost match.\<close>

definition TIMESTAMP :: regex where
  "TIMESTAMP = seqs
     [Chr is_digit, Opt (Chr is_digit), lit ''-'', Chr is_word, Chr is_word, Chr is_word,
      lit ''-'', Chr is_digit, Chr is_digit, Chr is_digit, Chr is_digit, Plus is_space,
      Chr is_digit, Chr is_digit, lit '':'', Chr is_digit, Chr is_digit, Plus is_space,
      lit ''UTC'']"

definition extractTimestamp :: "string \<Rightarrow> string option" where
  "extractTimestamp msg = search (match_here TIMESTAMP) msg"

text \<open>The index of a log by timestamp: a later entry with the same timestamp replaces
  an earlier one.\<close>

definition index_by_timestamp :: "log_entry list \<Rightarrow> (string \<rightharpoonup> log_entry)" where
  "index_by_timestamp entries =
     foldl (\<lambda>m e. case extractTimestamp (message e) of None \<Rightarrow> m | Some ts \<Rightarrow> m(ts \<mapsto> e))
           Map.empty entries"

definition GITHUB_REPOS :: "target \<Rightarrow> string" where
  "GITHUB_REPOS t =
     (case t of
        Main_repo \<Rightarrow> ''https://github.com/7-of-9/wagey-gg-remote-tech-jobs''
      | Emea_repo \<Rightarrow> ''https://github.com/7-of-9/wagey-gg-remote-tech-emea-jobs''
      | Apac_repo \<Rightarrow> ''https://github.com/7-of-9/wagey-gg-remote-tech-apac-jobs'')"

definition commit_link :: "target \<Rightarrow> string \<Rightarrow> string" where
  "commit_link t h = ''[`'' @ take 7 h @ ''`]('' @ GITHUB_REPOS t @ ''/commit/'' @ h @ '')''"

text \<open>The cell of a secondary target: the placeholder when its index has no entry.\<close>

definition secondary_cell :: "target \<Rightarrow> log_entry option \<Rightarrow> string" where
  "secondary_cell t found =
     (case found of
        None \<Rightarrow> em_dash
      | Some e \<Rightarrow> commit_link t (hash e) @ '' '' @ or_else (extractJobCount (message e)) ''?'')"

record history_row =
  h_time :: string
  h_main :: string
  h_emea :: string
  h_apac :: string

text \<open>The rows built from the log of the main target.\<close>

fun history_rows :: "(string \<rightharpoonup> log_entry) \<Rightarrow> (string \<rightharpoonup> log_entry) \<Rightarrow> log_entry list
                     \<Rightarrow> history_row list" where
  "history_rows emeaByTs apacByTs [] = []"
| "history_rows emeaByTs apacByTs (entry # rest) =
     (case (extractTimestamp (message entry), extractJobCount (message entry)) of
        (Some ts, Some mainJobs) \<Rightarrow>
          \<lparr>h_time = ts,
           h_main = commit_link Main_repo (hash entry) @ '' '' @ mainJobs,
           h_emea = secondary_cell Emea_repo (emeaByTs ts),
           h_apac = secondary_cell Apac_repo (apacByTs ts)\<rparr>
          # history_rows emeaByTs apacByTs rest
      | _ \<Rightarrow> history_rows emeaByTs apacByTs rest)"

definition history_of :: "log_entry list \<Rightarrow> log_entry list \<Rightarrow> log_entry list
                           \<Rightarrow> history_row list" where
  "history_of mainLog emeaLog apacLog =
     history_rows (index_by_timestamp emeaLog) (index_by_timestamp apacLog) mainLog"

definition render_row :: "history_row \<Rightarrow> string" where
  "render_row r =
     ''| '' @ h_time r @ '' | '' @ h_main r @ '' | '' @ h_emea r @ '' | '' @ h_apac r @ '' |''"

definition history_table_rows :: "world \<Rightarrow> history_row list" where
  "history_table_rows w =
     history_of (readGitLog w Main_repo HISTORY_LIMIT)
                (readGitLog w Emea_repo HISTORY_LIMIT)
                (readGitLog w Apac_repo HISTORY_LIMIT)"

definition buildHistoryTable :: "world \<Rightarrow> string" where
  "buildHistoryTable w =
     (let rows = map render_row (history_table_rows w)
      in if rows = [] then ''''
         else ''## Update History'' @ [CHR 0x0A, CHR 0x0A]
              @ ''| Time (UTC) | Main | EMEA | APAC |'' @ [CHR 0x0A]
              @ ''|---|---|---|---|'' @ [CHR 0x0A]
              @ js_join [CHR 0x0A] rows @ [CHR 0x0A])"

subsection \<open>The documents\<close>

text \<open>
  A document is kept as the values the template interpolates, in the order of the
  template; the fixed text between them is left out. A count is kept as the number the
  template formats with \<open>toLocaleString\<close>.
\<close>

definition REGION_LABELS :: "(string \<times> string) list" where
  "REGION_LABELS =
     [(''WW'', ''Remote Worldwide''), (''EMEA'', ''Europe & Middle East''),
      (''APAC'', ''Asia-Pacific''), (''NA'', ''North America''), (''LATAM'', ''Latin America'')]"

text \<open>\<open>groups[code] || []\<close> for the codes the templates name.\<close>

definition bucket :: "groups \<Rightarrow> string \<Rightarrow> job list" where
  "bucket g code =
     (if code = ''WW'' then WW g
      else if code = ''EMEA'' then EMEA g
      else if code = ''APAC'' then APAC g
      else if code = ''NA'' then NA g
      else if code = ''LATAM'' then LATAM g
      else [])"

record region_row =
  r_label :: string
  r_jobs :: nat
  r_salary :: nat
  r_verified :: nat

definition regionRow :: "groups \<Rightarrow> string \<Rightarrow> region_row" where
  "regionRow g code =
     (let label = (case map_of REGION_LABELS code of None \<Rightarrow> ''undefined'' | Some l \<Rightarrow> l);
          jobs = bucket g code;
          sal = length (filter hasSalary jobs);
          ver = length (filter isVerified jobs);
          linkedLabel =
            (if code = ''EMEA''
             then ''['' @ label @ ''](https://github.com/7-of-9/wagey-gg-remote-tech-emea-jobs)''
             else if code = ''APAC''
             then ''['' @ label @ ''](https://github.com/7-of-9/wagey-gg-remote-tech-apac-jobs)''
             else ''['' @ label @ ''](#'' @ map to_lower code @ '')'')
      in \<lparr>r_label = linkedLabel, r_jobs = length jobs, r_salary = sal, r_verified = ver\<rparr>)"

record main_readme =
  m_regions :: "region_row list"
  m_as_of :: string
  m_total_jobs :: nat
  m_total_salary :: nat
  m_total_verified :: nat
  m_other_emea :: nat
  m_other_apac :: nat
  m_ww_count :: nat
  m_ww_table :: string
  m_na_count :: nat
  m_na_table :: string
  m_latam_count :: nat
  m_latam_table :: string
  m_history :: string

definition mainReadme :: "world \<Rightarrow> groups \<Rightarrow> job list \<Rightarrow> logos \<Rightarrow> string \<Rightarrow> main_readme" where
  "mainReadme w g allJobs logos historyTable =
     (let onPage = [''WW'', ''NA'', ''LATAM''];
          offPage = [''EMEA'', ''APAC''];
          regionOrder = onPage @ offPage
      in \<lparr>m_regions = map (regionRow g) regionOrder,
          m_as_of = stamp w,
          m_total_jobs = length allJobs,
          m_total_salary = length (filter hasSalary allJobs),
          m_total_verified = length (filter isVerified allJobs),
          m_other_emea = length (EMEA g),
          m_other_apac = length (APAC g),
          m_ww_count = length (WW g),
          m_ww_table = jobTable w (WW g) logos default_limit,
          m_na_count = length (NA g),
          m_na_table = jobTable w (NA g) logos default_limit,
          m_latam_count = length (LATAM g),
          m_latam_table = jobTable w (LATAM g) logos default_limit,
          m_history = historyTable\<rparr>)"

record region_readme =
  g_label :: string
  g_as_of :: string
  g_jobs :: nat
  g_salary :: nat
  g_verified :: nat
  g_other_emea :: "nat option"
  g_other_apac :: "nat option"
  g_table :: string
  g_history :: string

definition regionReadme :: "world \<Rightarrow> string \<Rightarrow> string \<Rightarrow> job list \<Rightarrow> groups \<Rightarrow> logos \<Rightarrow> string
                            \<Rightarrow> region_readme" where
  "regionReadme w regionCode regionLabel jobs allGroups logos historyTable =
     \<lparr>g_label = regionLabel,
      g_as_of = stamp w,
      g_jobs = length jobs,
      g_salary = length (filter hasSalary jobs),
      g_verified = length (filter isVerified jobs),
      g_other_emea = (if regionCode \<noteq> ''EMEA'' then Some (length (EMEA allGroups)) else None),
      g_other_apac = (if regionCode \<noteq> ''APAC'' then Some (length (APAC allGroups)) else None),
      g_table = jobTable w jobs logos default_limit,
      g_history = historyTable\<rparr>"

subsection \<open>Writing and the run\<close>

record commit_msg =
  c_jobs :: nat
  c_salary :: nat
  c_verified :: nat
  c_teasers :: "nat option"
  c_time :: string

datatype content =
    Overview main_readme
  | Regional region_readme
  | Data "export list"
  | Message commit_msg

text \<open>How a run ends: the exit status of the process and the files written, in order.\<close>

record run_end =
  exit_status :: nat
  written :: "(path \<times> content) list"

text \<open>The calls of \<open>writeFile\<close> in sequence; a write that throws ends the run.\<close>

fun write_all :: "world \<Rightarrow> (path \<times> content) list \<Rightarrow> (path \<times> content) list \<Rightarrow> run_end" where
  "write_all w [] sofar = \<lparr>exit_status = 0, written = sofar\<rparr>"
| "write_all w (pc # rest) sofar =
     (if DRY_RUN w then write_all w rest sofar
      else if canWrite w (fst pc) then write_all w rest (sofar @ [pc])
      else \<lparr>exit_status = 1, written = sofar\<rparr>)"

text \<open>
  \<open>(meta && meta.companyLogos) || {}\<close>. The empty object inherits \<open>constructor\<close>, the
  one inherited name a normalized company name can spell.
\<close>

definition no_logos :: logos where
  "no_logos k = (if k = ''constructor'' then Some ''function Object() { [native code] }'' else None)"

definition logos_of :: "meta option \<Rightarrow> logos" where
  "logos_of m =
     (case m of
        None \<Rightarrow> no_logos
      | Some obj \<Rightarrow> (case companyLogos obj of None \<Rightarrow> no_logos | Some l \<Rightarrow> l))"

text \<open>The change summaries \<open>mainMsg\<close>, \<open>emeaMsg\<close> and \<open>apacMsg\<close>.\<close>

definition mainMsg :: "world \<Rightarrow> job list \<Rightarrow> commit_msg" where
  "mainMsg w jobs =
     (let totalSalary = length (filter hasSalary jobs);
          totalVerified = length (filter isVerified jobs);
          teaserCount = length (filter (\<lambda>j. visibility j = Some ''teaser'') jobs)
      in \<lparr>c_jobs = length jobs, c_salary = totalSalary, c_verified = totalVerified,
          c_teasers = Some teaserCount, c_time = stamp w\<rparr>)"

definition emeaMsg :: "world \<Rightarrow> groups \<Rightarrow> commit_msg" where
  "emeaMsg w g =
     \<lparr>c_jobs = length (EMEA g), c_salary = length (filter hasSalary (EMEA g)),
      c_verified = length (filter isVerified (EMEA g)), c_teasers = None, c_time = stamp w\<rparr>"

definition apacMsg :: "world \<Rightarrow> groups \<Rightarrow> commit_msg" where
  "apacMsg w g =
     \<lparr>c_jobs = length (APAC g), c_salary = length (filter hasSalary (APAC g)),
      c_verified = length (filter isVerified (APAC g)), c_teasers = None, c_time = stamp w\<rparr>"

definition outputs :: "world \<Rightarrow> job list \<Rightarrow> logos \<Rightarrow> groups \<Rightarrow> (path \<times> content) list" where
  "outputs w jobs logos g =
     (let historyTable = buildHistoryTable w
      in [((Main_repo, README_md), Overview (mainReadme w g jobs logos historyTable)),
          ((Main_repo, Jobs_json), Data (buildDataJson jobs)),
          ((Main_repo, Commit_msg_txt), Message (mainMsg w jobs)),
          ((Emea_repo, README_md),
             Regional (regionReadme w ''EMEA'' ''Europe & Middle East'' (EMEA g) g logos historyTable)),
          ((Emea_repo, Jobs_json), Data (buildDataJson (EMEA g))),
          ((Emea_repo, Commit_msg_txt), Message (emeaMsg w g)),
          ((Apac_repo, README_md),
             Regional (regionReadme w ''APAC'' ''Asia-Pacific'' (APAC g) g logos historyTable)),
          ((Apac_repo, Jobs_json), Data (buildDataJson (APAC g))),
          ((Apac_repo, Commit_msg_txt), Message (apacMsg w g))])"

text \<open>
  \<open>main\<close>, with the handler of its promise: whatever is thrown ends the process with
  status 1.
\<close>

definition main :: "world \<Rightarrow> run_end" where
  "main w =
     (case result (fetchJobs w) of
        Inl err \<Rightarrow> \<lparr>exit_status = 1, written = []\<rparr>
      | Inr None \<Rightarrow> \<lparr>exit_status = 1, written = []\<rparr>
      | Inr (Some (jobs, m)) \<Rightarrow>
          if length jobs = 0 then \<lparr>exit_status = 1, written = []\<rparr>
          else (let logos = logos_of m
                in case groupByRegion jobs of
                     Inl err \<Rightarrow> \<lparr>exit_status = 1, written = []\<rparr>
                   | Inr g \<Rightarrow> write_all w (outputs w jobs logos g) []))"

subsection \<open>Notions of the properties\<close>


text \<open>A list of records with the company of its teaser records replaced.\<close>

definition change_teaser_company :: "(job \<Rightarrow> string option) \<Rightarrow> job \<Rightarrow> job" where
  "change_teaser_company f j =
     (if visibility j = Some ''teaser'' then j\<lparr>company := f j\<rparr> else j)"

text \<open>The timestamp of a log entry that carries a timestamp and a job count.\<close>

definition dated :: "log_entry \<Rightarrow> string option" where
  "dated e =
     (case (extractTimestamp (message e), extractJobCount (message e)) of
        (Some ts, Some n) \<Rightarrow> Some ts
      | _ \<Rightarrow> None)"

text \<open>The values on which the conversion to a text throws: an object with an own
  property \<open>toString\<close>, and an array with such a value among its elements.\<close>

fun unconvertible :: "jsval \<Rightarrow> bool" where
  "unconvertible (VArr xs) = list_ex unconvertible xs"
| "unconvertible (VObj kvs) = (''toString'' \<in> set (map fst kvs))"
| "unconvertible v = False"


subsection \<open>Sample inputs\<close>

definition sample_job :: job where
  "sample_job =
     \<lparr>job_id = Some ''42'', title = Some ''Senior Engineer'', company = Some ''Acme'',
      region = Some ''EMEA'', isRemote = True, location = Some ''Remote, Germany'',
      salary = None, salaryMin = None, salaryMax = Some 100000,
      skills = Some ''Python(0.95), AWS(0.80), Go'', seniority = Some ''senior'', ats = None,
      verifiedAt = None, scrapedAt = Some ''2026-02-26T04:00:00Z'',
      visibility = Some ''full''\<rparr>"

definition sample_world :: world where
  "sample_world =
     \<lparr>now = 1772080500000,
      parseDate = (\<lambda>s. if s = ''2026-02-26T04:00:00Z'' then Some 1772078400000
                         else if s = ''2026-02-26T05:00:00Z'' then Some 1772082000000
                         else None),
      stamp = ''26-Feb-2026 04:35 UTC'',
      encodeURIComponent = (\<lambda>s. s),
      numberToString = (\<lambda>r. ''0''),
      JSON_parse = (\<lambda>l. if l = ''{bad'' then Malformed else JJob sample_job),
      fetch = (\<lambda>n. Responded \<lparr>status = 503, body = Some ''busy''\<rparr>),
      gitLog = (\<lambda>t limit. None),
      DRY_RUN = False,
      canWrite = (\<lambda>p. True)\<rparr>"

definition world_404 :: world where
  "world_404 = sample_world
     \<lparr>fetch := (\<lambda>n. if n = 1 then Responded \<lparr>status = 404, body = Some ''not found''\<rparr>
                     else Responded \<lparr>status = 200, body = Some ''{job}''\<rparr>)\<rparr>"

definition bad_body :: string where
  "bad_body = ''{job}'' @ [CHR 0x0A] @ ''{bad''"

definition world_bad_line :: world where
  "world_bad_line = sample_world
     \<lparr>fetch := (\<lambda>n. if n = 1 then Responded \<lparr>status = 200, body = Some bad_body\<rparr>
                     else Responded \<lparr>status = 200, body = Some ''{job}''\<rparr>)\<rparr>"

definition world_all_bad :: world where
  "world_all_bad = sample_world
     \<lparr>fetch := (\<lambda>n. Responded \<lparr>status = 200, body = Some ''{bad''\<rparr>)\<rparr>"

definition world_empty_feed :: world where
  "world_empty_feed = sample_world
     \<lparr>fetch := (\<lambda>n. Responded \<lparr>status = 200, body = Some ''''\<rparr>)\<rparr>"

definition emea_job :: job where
  "emea_job = sample_job"

definition constructor_job :: job where
  "constructor_job = sample_job\<lparr>region := Some ''constructor''\<rparr>"

definition ww_job :: job where
  "ww_job = sample_job\<lparr>region := None\<rparr>"



definition teaser_job :: job where
  "teaser_job = sample_job\<lparr>visibility := Some ''teaser''\<rparr>"

definition world_one_job :: world where
  "world_one_job = sample_world
     \<lparr>fetch := (\<lambda>n. Responded \<lparr>status = 200, body = Some ''{job}''\<rparr>)\<rparr>"

definition main_log :: string where
  "main_log = ''a1b2c3d4e5|2026-02-26T04:35:02+00:00|21,024 jobs 26-Feb-2026 04:35 UTC''
              @ [CHR 0x0A] @ ''feedbee123|2026-02-25T10:00:00+00:00|Fix the table header''"

definition emea_log :: string where
  "emea_log = ''e0e0e0e0e0|2026-02-26T04:35:09+00:00|5,210 EMEA jobs 26-Feb-2026 04:35 UTC''"

definition world_history :: world where
  "world_history = sample_world
     \<lparr>gitLog := (\<lambda>t limit. case t of Main_repo \<Rightarrow> Some main_log
                                    | Emea_repo \<Rightarrow> Some emea_log
                                    | Apac_repo \<Rightarrow> None)\<rparr>"



definition odd_object :: jsval where
  "odd_object = VObj [(''toString'', VNum 1)]"

section \<open>Properties\<close>

subsection \<open>The retry loop\<close>

lemma loop_continue:
  assumes "attempt \<le> 5" and "catch_block attempt (try_block w attempt) = Continue d"
    and "following = attempt + 1" and "slept' = slept @ [d]"
  shows "fetchJobs_loop w attempt slept = fetchJobs_loop w following slept'"
  using assms by (subst fetchJobs_loop.simps) (simp add: MAX_RETRIES_def)

lemma loop_throw:
  assumes "attempt \<le> 5" and "catch_block attempt (try_block w attempt) = Throw e"
  shows "fetchJobs_loop w attempt slept = \<lparr>result = Inl e, attempts = attempt, sleeps = slept\<rparr>"
  using assms by (subst fetchJobs_loop.simps) (simp add: MAX_RETRIES_def)

lemma loop_return:
  assumes "attempt \<le> 5" and "catch_block attempt (try_block w attempt) = Return r"
  shows "fetchJobs_loop w attempt slept
           = \<lparr>result = Inr (Some r), attempts = attempt, sleeps = slept\<rparr>"
  using assms by (subst fetchJobs_loop.simps) (simp add: MAX_RETRIES_def)

text \<open>A response that is not ok never returns: below the last attempt the turn sleeps
  and goes on, whatever the status.\<close>

lemma not_ok_turn:
  assumes "fetch w attempt = Responded r" and "\<not> ok r"
  shows "catch_block attempt (try_block w attempt) =
           (if attempt < 5 then Continue (backoff attempt)
            else Throw (HttpError (status r)
                          (take 500 (case body r of None \<Rightarrow> ''(no body)'' | Some b \<Rightarrow> b))))"
  using assms by (simp add: try_block_def catch_block_def MAX_RETRIES_def Let_def)

lemma backoff_values:
  "backoff 1 = 3000" "backoff (Suc 0) = 3000" "backoff 2 = 6000" "backoff 3 = 12000" "backoff 4 = 24000"
  by (simp_all add: backoff_def INITIAL_DELAY_MS_def)

lemma not_ok_503: "status r = 503 \<Longrightarrow> \<not> ok r"
  by (simp add: ok_def)

text \<open>
  C6. When each of the five calls of \<open>fetch\<close> answers 503, \<open>fetchJobs\<close> makes exactly
  five attempts, sleeps 3000, 6000, 12000 and 24000 milliseconds between them, and throws
  the error of the fifth answer.
\<close>

theorem fetchJobs_exhausts_on_503:
  assumes "\<And>n. 1 \<le> n \<Longrightarrow> n \<le> 5 \<Longrightarrow> fetch w n = Responded (r n) \<and> status (r n) = 503"
  shows "fetchJobs w =
           \<lparr>result = Inl (HttpError 503
                            (take 500 (case body (r 5) of None \<Rightarrow> ''(no body)'' | Some b \<Rightarrow> b))),
            attempts = 5,
            sleeps = [3000, 6000, 12000, 24000]\<rparr>"
proof -
  have t: "catch_block n (try_block w n) =
             (if n < 5 then Continue (backoff n)
              else Throw (HttpError 503
                            (take 500 (case body (r n) of None \<Rightarrow> ''(no body)'' | Some b \<Rightarrow> b))))"
    if "1 \<le> n" "n \<le> 5" for n
    using not_ok_turn [of w n "r n"] assms [OF that] not_ok_503 [of "r n"] by simp
  have "fetchJobs w = fetchJobs_loop w 2 [3000]"
    unfolding fetchJobs_def
    by (rule loop_continue [where d = 3000]) (simp_all add: t backoff_values)
  also have "\<dots> = fetchJobs_loop w 3 [3000, 6000]"
    by (rule loop_continue [where d = 6000]) (simp_all add: t backoff_values)
  also have "\<dots> = fetchJobs_loop w 4 [3000, 6000, 12000]"
    by (rule loop_continue [where d = 12000]) (simp_all add: t backoff_values)
  also have "\<dots> = fetchJobs_loop w 5 [3000, 6000, 12000, 24000]"
    by (rule loop_continue [where d = 24000]) (simp_all add: t backoff_values)
  also have "\<dots> = \<lparr>result = Inl (HttpError 503
                            (take 500 (case body (r 5) of None \<Rightarrow> ''(no body)'' | Some b \<Rightarrow> b))),
                     attempts = 5, sleeps = [3000, 6000, 12000, 24000]\<rparr>"
    by (rule loop_throw) (simp_all add: t)
  finally show ?thesis .
qed

theorem fetchJobs_exhausts_on_503_witness:
  "fetchJobs sample_world =
     \<lparr>result = Inl (HttpError 503 ''busy''), attempts = 5,
      sleeps = [3000, 6000, 12000, 24000]\<rparr>"
  using fetchJobs_exhausts_on_503 [of sample_world "\<lambda>n. \<lparr>status = 503, body = Some ''busy''\<rparr>"]
  by (simp add: sample_world_def)

lemma feed_lines_job: "feed_lines ''{job}'' = [''{job}'']"
  by (simp add: feed_lines_def js_trim_def is_space_def)

lemma feed_lines_bad: "feed_lines ''{bad'' = [''{bad'']"
  by (simp add: feed_lines_def js_trim_def is_space_def)

lemma feed_lines_mixed: "feed_lines bad_body = [''{job}'', ''{bad'']"
  by (simp add: bad_body_def feed_lines_def js_trim_def is_space_def)

text \<open>
  C1, at a failing input. The first call of \<open>fetch\<close> answers 404 and the second answers
  200 with one job: the error of the 404 is caught by the handler of the loop, which
  sleeps 3000 milliseconds and fetches again, and \<open>fetchJobs\<close> returns the job of the
  second answer.
\<close>

theorem fetchJobs_retries_404:
  "fetchJobs world_404 =
     \<lparr>result = Inr (Some ([sample_job], None)), attempts = 2, sleeps = [3000]\<rparr>"
proof -
  have 1: "catch_block 1 (try_block world_404 1) = Continue 3000"
    by (simp add: world_404_def sample_world_def try_block_def catch_block_def ok_def
        MAX_RETRIES_def backoff_values)
  have 2: "catch_block 2 (try_block world_404 2) = Return ([sample_job], None)"
    by (simp add: world_404_def sample_world_def try_block_def catch_block_def ok_def
        feed_lines_job)
  have "fetchJobs world_404 = fetchJobs_loop world_404 2 [3000]"
    unfolding fetchJobs_def by (rule loop_continue [OF _ 1]) simp_all
  also have "\<dots> = \<lparr>result = Inr (Some ([sample_job], None)), attempts = 2, sleeps = [3000]\<rparr>"
    by (rule loop_return [OF _ 2]) simp
  finally show ?thesis .
qed

lemma parse_lines_malformed:
  assumes "l \<in> set ls" and "P l = Malformed"
  shows "parse_lines P ls jobs m = Inl SyntaxError \<or> parse_lines P ls jobs m = Inl TypeError"
  using assms
proof (induction ls arbitrary: jobs m)
  case Nil
  then show ?case by simp
next
  case (Cons a ls)
  show ?case
  proof (cases "P a")
    case Malformed
    then show ?thesis by simp
  next
    case JNull
    then show ?thesis by simp
  next
    case (JMeta obj)
    with Cons have "l \<in> set ls" by auto
    with Cons.IH [OF _ Cons.prems(2)] JMeta show ?thesis by simp
  next
    case (JJob d)
    with Cons have "l \<in> set ls" by auto
    with Cons.IH [OF _ Cons.prems(2)] JJob show ?thesis by simp
  next
    case JOther
    with Cons have "l \<in> set ls" by auto
    with Cons.IH [OF _ Cons.prems(2)] JOther show ?thesis by simp
  qed
qed

text \<open>
  C2, as the script has it. When a line of an ok response does not parse, the attempt
  gives no result, not even the jobs of the lines before: the loop over the lines
  throws (the SyntaxError of that line, or the TypeError of an earlier line that is
  \<open>null\<close>). The handler of the retry loop takes this error as it takes any other: in
  the attempts 1 to 4 it sleeps the delay of the attempt and fetches again, and in the
  fifth attempt the error goes to the caller.
\<close>

theorem malformed_line_is_retried:
  assumes "fetch w attempt = Responded r" and "ok r" and "body r = Some text"
    and "l \<in> set (feed_lines text)" and "JSON_parse w l = Malformed"
  shows "\<exists>e. parse_lines (JSON_parse w) (feed_lines text) [] None = Inl e
             \<and> (e = SyntaxError \<or> e = TypeError)
             \<and> (attempt < 5 \<longrightarrow>
                  fetchJobs_loop w attempt slept
                    = fetchJobs_loop w (attempt + 1) (slept @ [backoff attempt]))
             \<and> (attempt = 5 \<longrightarrow>
                  fetchJobs_loop w attempt slept
                    = \<lparr>result = Inl e, attempts = 5, sleeps = slept\<rparr>)"
proof -
  from parse_lines_malformed
         [where l = l and ls = "feed_lines text" and P = "JSON_parse w" and jobs = "[]"
            and m = None, OF assms(4,5)]
  obtain e where e: "parse_lines (JSON_parse w) (feed_lines text) [] None = Inl e"
    and k: "e = SyntaxError \<or> e = TypeError"
    by blast
  have t: "try_block w attempt = Throw e"
    using assms(1,2,3) e by (simp add: try_block_def)
  have c: "attempt < 5 \<Longrightarrow> catch_block attempt (try_block w attempt) = Continue (backoff attempt)"
    by (simp add: t catch_block_def MAX_RETRIES_def)
  have d: "attempt = 5 \<Longrightarrow> catch_block attempt (try_block w attempt) = Throw e"
    using t by (simp add: catch_block_def MAX_RETRIES_def)
  have "attempt < 5 \<Longrightarrow>
          fetchJobs_loop w attempt slept
            = fetchJobs_loop w (attempt + 1) (slept @ [backoff attempt])"
    by (rule loop_continue [where d = "backoff attempt"]) (simp_all add: c)
  moreover have "attempt = 5 \<Longrightarrow>
          fetchJobs_loop w attempt slept = \<lparr>result = Inl e, attempts = 5, sleeps = slept\<rparr>"
    using loop_throw [of attempt w e slept] d by simp
  ultimately show ?thesis
    using e k by blast
qed

theorem malformed_line_is_retried_witness:
  "fetchJobs_loop world_bad_line 1 [] = fetchJobs_loop world_bad_line 2 [3000]
   \<and> fetchJobs_loop world_all_bad 5 [3000, 6000, 12000, 24000]
       = \<lparr>result = Inl SyntaxError, attempts = 5, sleeps = [3000, 6000, 12000, 24000]\<rparr>"
proof -
  have a: "fetch world_bad_line 1 = Responded \<lparr>status = 200, body = Some bad_body\<rparr>"
    "ok \<lparr>status = 200, body = Some bad_body\<rparr>"
    "body \<lparr>status = 200, body = Some bad_body\<rparr> = Some bad_body"
    "''{bad'' \<in> set (feed_lines bad_body)"
    "JSON_parse world_bad_line ''{bad'' = Malformed"
    by (simp_all add: world_bad_line_def sample_world_def ok_def feed_lines_mixed)
  have b: "fetch world_all_bad 5 = Responded \<lparr>status = 200, body = Some ''{bad''\<rparr>"
    "ok \<lparr>status = 200, body = Some ''{bad''\<rparr>"
    "body \<lparr>status = 200, body = Some ''{bad''\<rparr> = Some ''{bad''"
    "''{bad'' \<in> set (feed_lines ''{bad'')"
    "JSON_parse world_all_bad ''{bad'' = Malformed"
    by (simp_all add: world_all_bad_def sample_world_def ok_def feed_lines_bad)
  have q: "parse_lines (JSON_parse world_all_bad) (feed_lines ''{bad'') [] None
             = Inl SyntaxError"
    by (simp add: b(5) feed_lines_bad)
  from malformed_line_is_retried [OF a, of "[]"]
  have "fetchJobs_loop world_bad_line 1 [] = fetchJobs_loop world_bad_line (1 + 1) ([] @ [backoff 1])"
    by auto
  then have 1: "fetchJobs_loop world_bad_line 1 [] = fetchJobs_loop world_bad_line 2 [3000]"
    by (simp only: backoff_values append_Nil one_add_one)
  from malformed_line_is_retried [OF b, of "[3000, 6000, 12000, 24000]"]
  obtain e where "parse_lines (JSON_parse world_all_bad) (feed_lines ''{bad'') [] None = Inl e"
    and "fetchJobs_loop world_all_bad 5 [3000, 6000, 12000, 24000]
           = \<lparr>result = Inl e, attempts = 5, sleeps = [3000, 6000, 12000, 24000]\<rparr>"
    by blast
  with q have 2: "fetchJobs_loop world_all_bad 5 [3000, 6000, 12000, 24000]
           = \<lparr>result = Inl SyntaxError, attempts = 5, sleeps = [3000, 6000, 12000, 24000]\<rparr>"
    by simp
  from 1 2 show ?thesis by (rule conjI)
qed

text \<open>
  C2 as the spec words it fails: the first answer is ok with a line that does not
  parse, and \<open>fetchJobs\<close> fetches a second time and returns the job of the second
  answer.
\<close>

theorem malformed_line_counterexample:
  "attempts (fetchJobs world_bad_line) = 2
   \<and> sleeps (fetchJobs world_bad_line) = [3000]
   \<and> result (fetchJobs world_bad_line) = Inr (Some ([sample_job], None))"
proof -
  have 1: "catch_block 1 (try_block world_bad_line 1) = Continue 3000"
    by (simp add: world_bad_line_def sample_world_def try_block_def catch_block_def ok_def
        MAX_RETRIES_def backoff_values feed_lines_mixed)
  have 2: "catch_block 2 (try_block world_bad_line 2) = Return ([sample_job], None)"
    by (simp add: world_bad_line_def sample_world_def try_block_def catch_block_def ok_def
        feed_lines_job)
  have "fetchJobs world_bad_line = fetchJobs_loop world_bad_line 2 [3000]"
    unfolding fetchJobs_def by (rule loop_continue [OF _ 1]) simp_all
  also have "\<dots> = \<lparr>result = Inr (Some ([sample_job], None)), attempts = 2, sleeps = [3000]\<rparr>"
    by (rule loop_return [OF _ 2]) simp
  finally show ?thesis by simp
qed

subsection \<open>Grouping by region\<close>

lemma sample_title_kept: "\<not> test_full GARBAGE_TITLES ''Senior Engineer''"
  by code_simp

lemma sample_not_garbage:
  "\<not> isGarbageJob emea_job" "\<not> isGarbageJob constructor_job" "\<not> isGarbageJob ww_job"
  using sample_title_kept
  by (simp_all add: isGarbageJob_def emea_job_def constructor_job_def ww_job_def sample_job_def
      or_else_def js_trim_def is_space_def)

text \<open>
  C4, at a failing input. The second record has the region \<open>constructor\<close>, which no
  bucket is named after: \<open>groups[region]\<close> finds the inherited property, the call of
  its \<open>push\<close> throws, and \<open>groupByRegion\<close> returns no buckets at all, so the first
  record, of region EMEA, is in no EMEA bucket.
\<close>

theorem groupByRegion_throws_on_inherited_name:
  "groupByRegion [emea_job, constructor_job] = Inl TypeError"
  using sample_not_garbage
  by (simp add: groupByRegion_def groupByRegion_step_def no_groups_def or_else_def
      emea_job_def constructor_job_def sample_job_def inherited_properties_def)



subsection \<open>Sorting keeps what a table counts\<close>





lemma insert_by_map:
  assumes "\<And>a b. cmp (f a) (f b) = cmp a b"
  shows "insert_by cmp (f x) (map f ys) = map f (insert_by cmp x ys)"
  by (induction ys) (simp_all add: assms)

lemma sort_by_map:
  assumes "\<And>a b. cmp (f a) (f b) = cmp a b"
  shows "sort_by cmp (map f xs) = map f (sort_by cmp xs)"
proof (induction xs)
  case Nil
  then show ?case by (simp add: sort_by_def)
next
  case (Cons x xs)
  have "sort_by cmp (map f (x # xs)) = insert_by cmp (f x) (sort_by cmp (map f xs))"
    by (simp add: sort_by_def)
  also have "\<dots> = insert_by cmp (f x) (map f (sort_by cmp xs))"
    by (simp only: Cons.IH)
  also have "\<dots> = map f (insert_by cmp x (sort_by cmp xs))"
    by (rule insert_by_map) (rule assms)
  also have "\<dots> = map f (sort_by cmp (x # xs))"
    by (simp add: sort_by_def)
  finally show ?case .
qed

subsection \<open>Teaser records\<close>

lemma freshness_company:
  "freshness w (change_teaser_company f a) (change_teaser_company f b) = freshness w a b"
  by (simp add: freshness_def change_teaser_company_def cong: option.case_cong)

lemma exportJob_teaser:
  assumes "visibility j = Some ''teaser''"
  shows "exportJob (j\<lparr>company := c\<rparr>) = exportJob j"
  using assms by (simp add: exportJob_def fmtSalary_def)

lemma jobRow_teaser:
  assumes "visibility j = Some ''teaser''"
  shows "jobRow w logos (j\<lparr>company := c\<rparr>) = jobRow w logos j"
  using assms by (simp add: jobRow_def teaserMask_def fmtSalary_def applyCell_def)

lemma exportJob_changed: "exportJob (change_teaser_company f j) = exportJob j"
  by (simp add: change_teaser_company_def exportJob_teaser)

lemma jobRow_changed: "jobRow w logos (change_teaser_company f j) = jobRow w logos j"
  by (simp add: change_teaser_company_def jobRow_teaser)

lemma jobTable_sorted_changed:
  "jobTable_sorted w (map (change_teaser_company f) js) limit
     = map (change_teaser_company f) (jobTable_sorted w js limit)"
proof -
  have "sort_by (freshness w) (map (change_teaser_company f) js)
          = map (change_teaser_company f) (sort_by (freshness w) js)"
    by (rule sort_by_map) (rule freshness_company)
  then show ?thesis
    by (simp add: jobTable_sorted_def sortJobs_def take_map)
qed

lemma jobTable_changed:
  "jobTable w (map (change_teaser_company f) js) logos limit = jobTable w js logos limit"
proof -
  have "jobTable_rows w (map (change_teaser_company f) js) logos limit
          = jobTable_rows w js logos limit"
    by (simp add: jobTable_rows_def jobTable_sorted_changed jobRow_changed)
  then show ?thesis
    by (simp add: jobTable_def jobTable_sorted_changed)
qed

text \<open>
  C5. For a record of visibility teaser the export has no company and no url, and the
  apply cell links to the pricing page. The company of a teaser record reaches neither
  the export nor a table: replacing it changes neither the exported object nor the row,
  and replacing the companies of all teaser records of a list changes neither the
  exported list nor the rendered table.
\<close>

theorem teaser_redaction:
  "(visibility j = Some ''teaser'' \<longrightarrow>
      e_company (exportJob j) = None
      \<and> e_url (exportJob j) = None
      \<and> applyCell j = ''['' @ lock_icon @ '' Pro](https://wagey.gg/pricing?ref=github)''
      \<and> exportJob (j\<lparr>company := c\<rparr>) = exportJob j
      \<and> jobRow w logos (j\<lparr>company := c\<rparr>) = jobRow w logos j)
   \<and> buildDataJson (map (change_teaser_company f) js) = buildDataJson js
   \<and> jobTable w (map (change_teaser_company f) js) logos limit = jobTable w js logos limit"
proof -
  have "visibility j = Some ''teaser'' \<Longrightarrow>
      e_company (exportJob j) = None \<and> e_url (exportJob j) = None
      \<and> applyCell j = ''['' @ lock_icon @ '' Pro](https://wagey.gg/pricing?ref=github)''"
    by (simp add: exportJob_def applyCell_def REF_def)
  moreover have "buildDataJson (map (change_teaser_company f) js) = buildDataJson js"
    by (simp add: buildDataJson_def exportJob_changed)
  ultimately show ?thesis
    using exportJob_teaser [of j c] jobRow_teaser [of j w logos c] jobTable_changed [of w f js]
    by blast
qed

theorem teaser_redaction_witness:
  "e_company (exportJob teaser_job) = None
   \<and> e_url (exportJob teaser_job) = None
   \<and> e_company (exportJob sample_job) = Some ''Acme''
   \<and> exportJob (teaser_job\<lparr>company := Some ''Initech''\<rparr>) = exportJob teaser_job
   \<and> jobRow sample_world no_logos (teaser_job\<lparr>company := Some ''Initech''\<rparr>)
       = jobRow sample_world no_logos teaser_job
   \<and> jobTable sample_world
        (map (change_teaser_company (\<lambda>j. Some ''Initech'')) [sample_job, teaser_job])
        no_logos default_limit
       = jobTable sample_world [sample_job, teaser_job] no_logos default_limit"
proof -
  have v: "visibility teaser_job = Some ''teaser''"
    by (simp add: teaser_job_def)
  have s: "e_company (exportJob sample_job) = Some ''Acme''"
    by (simp add: exportJob_def sample_job_def)
  show ?thesis
    using teaser_redaction [of teaser_job "Some ''Initech''" sample_world no_logos
            "\<lambda>j. Some ''Initech''" "[sample_job, teaser_job]" default_limit] v s
    by simp
qed

subsection \<open>The run\<close>

lemma feed_lines_empty: "feed_lines '''' = []"
  by (simp add: feed_lines_def js_trim_def)

lemma fetchJobs_empty_feed:
  "fetchJobs world_empty_feed = \<lparr>result = Inr (Some ([], None)), attempts = 1, sleeps = []\<rparr>"
proof -
  have "catch_block 1 (try_block world_empty_feed 1) = Return ([], None)"
    by (simp add: world_empty_feed_def sample_world_def try_block_def catch_block_def ok_def
        feed_lines_empty)
  then show ?thesis
    unfolding fetchJobs_def by (rule loop_return [rotated]) simp
qed

lemma fetchJobs_one_job:
  "fetchJobs world_one_job
     = \<lparr>result = Inr (Some ([sample_job], None)), attempts = 1, sleeps = []\<rparr>"
proof -
  have "catch_block 1 (try_block world_one_job 1) = Return ([sample_job], None)"
    by (simp add: world_one_job_def sample_world_def try_block_def catch_block_def ok_def
        feed_lines_job)
  then show ?thesis
    unfolding fetchJobs_def by (rule loop_return [rotated]) simp
qed

lemma write_all_succeeds:
  assumes "\<not> DRY_RUN w" and "\<And>p. canWrite w p"
  shows "write_all w xs sofar = \<lparr>exit_status = 0, written = sofar @ xs\<rparr>"
  using assms by (induction xs arbitrary: sofar) simp_all

text \<open>A feed of one job, for comparison: the run ends with status 0 and has written
  the nine files, in the order of the script.\<close>

lemma main_writes_nine_files:
  "exit_status (main world_one_job) = 0
   \<and> map fst (written (main world_one_job))
       = [(Main_repo, README_md), (Main_repo, Jobs_json), (Main_repo, Commit_msg_txt),
          (Emea_repo, README_md), (Emea_repo, Jobs_json), (Emea_repo, Commit_msg_txt),
          (Apac_repo, README_md), (Apac_repo, Jobs_json), (Apac_repo, Commit_msg_txt)]"
proof -
  have g: "\<exists>g. groupByRegion [sample_job] = Inr g"
    using sample_not_garbage(1)
    by (simp add: groupByRegion_def groupByRegion_step_def emea_job_def sample_job_def
        or_else_def)
  have w: "\<not> DRY_RUN world_one_job" "\<And>p. canWrite world_one_job p"
    by (simp_all add: world_one_job_def sample_world_def)
  from g obtain g where "groupByRegion [sample_job] = Inr g" ..
  then have "main world_one_job
               = \<lparr>exit_status = 0,
                  written = outputs world_one_job [sample_job] (logos_of None) g\<rparr>"
    by (simp add: main_def fetchJobs_one_job write_all_succeeds [OF w])
  then show ?thesis
    by (simp add: outputs_def Let_def)
qed

text \<open>
  C7. When \<open>fetchJobs\<close> returns no job, the run ends with exit status 1 and has written
  no file: \<open>main\<close> tests the number of jobs before it builds or writes anything.
\<close>

theorem main_aborts_on_empty_feed:
  assumes "result (fetchJobs w) = Inr (Some ([], m))"
  shows "exit_status (main w) = 1 \<and> written (main w) = []"
  using assms by (simp add: main_def)

theorem main_aborts_on_empty_feed_witness:
  "result (fetchJobs world_empty_feed) = Inr (Some ([], None))
   \<and> exit_status (main world_empty_feed) = 1
   \<and> written (main world_empty_feed) = []"
proof -
  have r: "result (fetchJobs world_empty_feed) = Inr (Some ([], None))"
    by (simp add: fetchJobs_empty_feed)
  from main_aborts_on_empty_feed [OF r] r show ?thesis
    by (rule_tac conjI) assumption+
qed

subsection \<open>Salary display\<close>

lemma fmtK_examples:
  "fmtK 1200 = ''$1k''" "fmtK 950 = ''$950''" "fmtK 1500000 = ''$1500k''"
  "fmtK 90000 = ''$90k''" "fmtK 120500 = ''$121k''" "fmtK 100000 = ''$100k''"
  "fmtK 1499 = ''$1k''"
  by code_simp+

lemma round_nearest:
  "1000 * (((n::int) + 500) div 1000) - 500 \<le> n \<and> n < 1000 * ((n + 500) div 1000) + 500"
  using mult_div_mod_eq [of 1000 "n + 500"] pos_mod_bound [of 1000 "n + 500"]
    pos_mod_sign [of 1000 "n + 500"]
  by linarith

lemma fmtSalary_equal:
  "m \<noteq> 0 \<Longrightarrow>
     fmtSalary (j\<lparr>salaryMin := Some m, salaryMax := Some m\<rparr>) = fmtK m @ ''/year''"
  by (simp add: fmtSalary_def nonzero_def)

lemma fmtSalary_range:
  "m \<noteq> 0 \<Longrightarrow> x \<noteq> 0 \<Longrightarrow> m \<noteq> x \<Longrightarrow>
     fmtSalary (j\<lparr>salaryMin := Some m, salaryMax := Some x\<rparr>)
       = fmtK m @ en_dash @ fmtK x @ ''/year''"
  by (simp add: fmtSalary_def nonzero_def)

lemma fmtSalary_min_only:
  "m \<noteq> 0 \<Longrightarrow>
     fmtSalary (j\<lparr>salaryMin := Some m, salaryMax := None\<rparr>) = fmtK m @ ''+/year''"
  "m \<noteq> 0 \<Longrightarrow>
     fmtSalary (j\<lparr>salaryMin := Some m, salaryMax := Some 0\<rparr>) = fmtK m @ ''+/year''"
  by (simp_all add: fmtSalary_def nonzero_def)

lemma fmtSalary_max_only:
  "x \<noteq> 0 \<Longrightarrow>
     fmtSalary (j\<lparr>salaryMin := None, salaryMax := Some x\<rparr>) = fmtK x @ ''/year''"
  "x \<noteq> 0 \<Longrightarrow>
     fmtSalary (j\<lparr>salaryMin := Some 0, salaryMax := Some x\<rparr>) = fmtK x @ ''/year''"
  by (simp_all add: fmtSalary_def nonzero_def)

lemma fmtSalary_none:
  "fmtSalary (j\<lparr>salaryMin := None, salaryMax := None\<rparr>) = []"
  "fmtSalary (j\<lparr>salaryMin := None, salaryMax := Some 0\<rparr>) = []"
  "fmtSalary (j\<lparr>salaryMin := Some 0, salaryMax := None\<rparr>) = []"
  "fmtSalary (j\<lparr>salaryMin := Some 0, salaryMax := Some 0\<rparr>) = []"
  by (simp_all add: fmtSalary_def nonzero_def)

lemma fmtK_cases:
  "1000 \<le> n \<Longrightarrow> fmtK n = ''$'' @ show_int ((n + 500) div 1000) @ ''k''"
  "\<not> 1000 \<le> n \<Longrightarrow> fmtK n = ''$'' @ show_int n"
  by (simp_all add: fmtK_def)

text \<open>
  C9, as the script has it, for bounds that are safe integers. A bound is present when
  it is there and not 0. With both bounds present \<open>fmtSalary\<close> gives one compacted value
  if they are equal and two joined by an en dash if they differ; with one bound present
  it gives that bound; with no bound present, each being absent or 0, the empty string.
  Every non-empty result ends in \<open>/year\<close>, and only a lone lower bound gets the \<open>+\<close>
  before it. \<open>fmtK\<close> writes a safe integer from 1000 on as the dollar sign, the nearest
  integer to the value divided by 1000 (a half goes up) and \<open>k\<close>, and a smaller one as
  the dollar sign and the value: 1200 gives \<open>$1k\<close>, 950 gives \<open>$950\<close>, 1500000 gives
  \<open>$1500k\<close>.
\<close>

theorem fmtSalary_renders:
  assumes "m \<noteq> 0" and "x \<noteq> 0" and "m \<noteq> x" and "safe_integer m" and "safe_integer x"
  shows "fmtSalary (j\<lparr>salaryMin := Some m, salaryMax := Some m\<rparr>) = fmtK m @ ''/year''
       \<and> fmtSalary (j\<lparr>salaryMin := Some m, salaryMax := Some x\<rparr>)
           = fmtK m @ en_dash @ fmtK x @ ''/year''
       \<and> fmtSalary (j\<lparr>salaryMin := Some m, salaryMax := None\<rparr>) = fmtK m @ ''+/year''
       \<and> fmtSalary (j\<lparr>salaryMin := Some m, salaryMax := Some 0\<rparr>) = fmtK m @ ''+/year''
       \<and> fmtSalary (j\<lparr>salaryMin := None, salaryMax := Some x\<rparr>) = fmtK x @ ''/year''
       \<and> fmtSalary (j\<lparr>salaryMin := Some 0, salaryMax := Some x\<rparr>) = fmtK x @ ''/year''
       \<and> fmtSalary (j\<lparr>salaryMin := None, salaryMax := None\<rparr>) = ''''
       \<and> fmtSalary (j\<lparr>salaryMin := None, salaryMax := Some 0\<rparr>) = ''''
       \<and> fmtSalary (j\<lparr>salaryMin := Some 0, salaryMax := None\<rparr>) = ''''
       \<and> fmtSalary (j\<lparr>salaryMin := Some 0, salaryMax := Some 0\<rparr>) = ''''
       \<and> (safe_integer n \<longrightarrow>
            (if 1000 \<le> n
             then fmtK n = ''$'' @ show_int ((n + 500) div 1000) @ ''k''
                  \<and> 1000 * ((n + 500) div 1000) - 500 \<le> n
                  \<and> n < 1000 * ((n + 500) div 1000) + 500
             else fmtK n = ''$'' @ show_int n))
       \<and> fmtK 1200 = ''$1k'' \<and> fmtK 950 = ''$950'' \<and> fmtK 1500000 = ''$1500k''"
proof -
  have k: "if 1000 \<le> n
           then fmtK n = ''$'' @ show_int ((n + 500) div 1000) @ ''k''
                \<and> 1000 * ((n + 500) div 1000) - 500 \<le> n
                \<and> n < 1000 * ((n + 500) div 1000) + 500
           else fmtK n = ''$'' @ show_int n"
  proof (cases "1000 \<le> n")
    case True
    show ?thesis
      unfolding if_P [OF True] using fmtK_cases(1) [OF True] round_nearest [of n] by blast
  next
    case False
    show ?thesis
      unfolding if_not_P [OF False] by (rule fmtK_cases(2) [OF False])
  qed
  show ?thesis
    using fmtSalary_equal [OF assms(1), of j] fmtSalary_range [OF assms(1,2,3), of j]
      fmtSalary_min_only [OF assms(1), of j] fmtSalary_max_only [OF assms(2), of j]
      fmtSalary_none [of j] k fmtK_examples(1,2,3)
    by blast
qed

theorem fmtSalary_renders_witness:
  "fmtSalary (sample_job\<lparr>salaryMin := Some 90000, salaryMax := Some 90000\<rparr>) = ''$90k/year''
   \<and> fmtSalary (sample_job\<lparr>salaryMin := Some 90000, salaryMax := Some 120500\<rparr>)
       = ''$90k'' @ en_dash @ ''$121k/year''
   \<and> fmtSalary (sample_job\<lparr>salaryMin := Some 90000, salaryMax := None\<rparr>) = ''$90k+/year''
   \<and> fmtSalary (sample_job\<lparr>salaryMin := None, salaryMax := Some 120500\<rparr>) = ''$121k/year''
   \<and> fmtSalary (sample_job\<lparr>salaryMin := None, salaryMax := Some 0\<rparr>) = ''''
   \<and> fmtSalary (sample_job\<lparr>salaryMin := Some 0, salaryMax := Some 0\<rparr>) = ''''
   \<and> safe_integer 1499
   \<and> fmtK 1499 = ''$'' @ show_int ((1499 + 500) div 1000) @ ''k''"
proof -
  have a: "(90000::int) \<noteq> 0" "(120500::int) \<noteq> 0" "(90000::int) \<noteq> 120500"
    "safe_integer 90000" "safe_integer 120500"
    by (simp_all add: safe_integer_def)
  have s: "safe_integer 1499" "(1000::int) \<le> 1499"
    by (simp_all add: safe_integer_def)
  note t = fmtSalary_renders [OF a, of sample_job 1499]
  have "fmtSalary (sample_job\<lparr>salaryMin := Some 90000, salaryMax := Some 90000\<rparr>)
          = fmtK 90000 @ ''/year''
        \<and> fmtSalary (sample_job\<lparr>salaryMin := Some 90000, salaryMax := Some 120500\<rparr>)
          = fmtK 90000 @ en_dash @ fmtK 120500 @ ''/year''
        \<and> fmtSalary (sample_job\<lparr>salaryMin := Some 90000, salaryMax := None\<rparr>)
          = fmtK 90000 @ ''+/year''
        \<and> fmtSalary (sample_job\<lparr>salaryMin := None, salaryMax := Some 120500\<rparr>)
          = fmtK 120500 @ ''/year''
        \<and> fmtSalary (sample_job\<lparr>salaryMin := None, salaryMax := Some 0\<rparr>) = ''''
        \<and> fmtSalary (sample_job\<lparr>salaryMin := Some 0, salaryMax := Some 0\<rparr>) = ''''"
    using t by blast
  moreover have "fmtK 1499 = ''$'' @ show_int ((1499 + 500) div 1000) @ ''k''"
    using t s by (simp only: if_True simp_thms)
  ultimately show ?thesis
    using s(1) by (simp add: fmtK_examples)
qed

text \<open>
  C9 as the spec words it gives every lone bound the \<open>+\<close>, and the unit to lone
  bounds. A job with only an upper bound of 100000 is rendered without the \<open>+\<close>, and
  a job with both bounds at 90000 is rendered as the compacted value with the unit.
\<close>

theorem fmtSalary_max_only_counterexample:
  "fmtSalary (sample_job\<lparr>salaryMin := None, salaryMax := Some 100000\<rparr>) = ''$100k/year''
   \<and> fmtSalary (sample_job\<lparr>salaryMin := None, salaryMax := Some 100000\<rparr>)
       \<noteq> fmtK 100000 @ ''+/year''
   \<and> fmtSalary (sample_job\<lparr>salaryMin := Some 90000, salaryMax := Some 90000\<rparr>)
       = ''$90k/year''
   \<and> fmtSalary (sample_job\<lparr>salaryMin := Some 90000, salaryMax := Some 90000\<rparr>)
       \<noteq> fmtK 90000"
  by (simp add: fmtSalary_def nonzero_def fmtK_examples)

subsection \<open>Age display\<close>

lemma under_one_hour: "(d::int) < 3600000 \<Longrightarrow> d div 3600000 < 1"
  by (simp add: div_less_iff_less_mult)

lemma to_text_throws: "isl (to_text w v) \<longleftrightarrow> unconvertible v"
proof (induction v)
  case (VArr xs)
  have "list_ex isl (map (\<lambda>x. if x = VUndefined \<or> x = VNull then Inr [] else to_text w x) xs)
          \<longleftrightarrow> list_ex unconvertible xs"
  proof
    assume "list_ex isl
              (map (\<lambda>x. if x = VUndefined \<or> x = VNull then Inr [] else to_text w x) xs)"
    then obtain x where x: "x \<in> set xs"
      and "isl (if x = VUndefined \<or> x = VNull then Inr [] else to_text w x)"
      by (auto simp: list_ex_iff)
    then have "isl (to_text w x)"
      by (simp split: if_splits)
    with VArr [OF x] x show "list_ex unconvertible xs"
      by (auto simp: list_ex_iff)
  next
    assume "list_ex unconvertible xs"
    then obtain x where x: "x \<in> set xs" and u: "unconvertible x"
      by (auto simp: list_ex_iff)
    from u have "x \<noteq> VUndefined" "x \<noteq> VNull"
      by auto
    with VArr [OF x] u x
    show "list_ex isl
            (map (\<lambda>x. if x = VUndefined \<or> x = VNull then Inr [] else to_text w x) xs)"
      by (auto simp: list_ex_iff intro!: bexI [of _ x])
  qed
  then show ?case
    by (simp add: Let_def)
qed simp_all

lemma to_text_error: "to_text w v = Inl e \<Longrightarrow> e = TypeError"
  by (cases v) (auto simp: Let_def split: if_splits)

lemma isl_case_sum: "isl (case t of Inl e \<Rightarrow> Inl e | Inr s \<Rightarrow> Inr (f s)) \<longleftrightarrow> isl t"
  by (cases t) simp_all

lemma date_value_throws: "isl (date_value w v) \<longleftrightarrow> unconvertible v"
  by (cases v)
     (simp_all add: date_value_def isl_case_sum to_text_throws del: to_text.simps)

lemma date_value_error: "date_value w v = Inl e \<Longrightarrow> e = TypeError"
  by (cases v)
     (auto simp: date_value_def split: sum.splits dest: to_text_error simp del: to_text.simps)

lemma falsy_convertible: "falsy v \<Longrightarrow> \<not> unconvertible v"
  by (auto simp: falsy_def)

lemma fmtAge_throws: "isl (fmtAge w v) \<longleftrightarrow> unconvertible v"
proof (cases "falsy v")
  case True
  then show ?thesis
    by (simp add: fmtAge_def falsy_convertible)
next
  case False
  then show ?thesis
    using date_value_throws [of w v]
    by (cases "date_value w v") (auto simp: fmtAge_def split: option.splits)
qed

lemma fmtAge_error: "fmtAge w v = Inl e \<Longrightarrow> e = TypeError"
  using date_value_error [of w v e]
  by (cases "date_value w v") (auto simp: fmtAge_def split: if_splits option.splits)

lemma fmtAge_on_field: "fmtAge w (field_value v) = Inr (fmtAge_field w v)"
proof -
  have "\<not> unconvertible (field_value v)"
    by (cases v) (simp_all add: field_value_def)
  then have "\<not> isl (fmtAge w (field_value v))"
    by (simp add: fmtAge_throws)
  then show ?thesis
    by (cases "fmtAge w (field_value v)") (simp_all add: fmtAge_field_def)
qed

text \<open>
  C10, as the script has it. \<open>fmtAge\<close> throws on exactly the values whose conversion to
  a text throws: an object with an own property \<open>toString\<close>, and an array that holds
  such a value; what it throws is a TypeError of \<open>new Date\<close>. On every other value it
  returns a string: on what is absent, \<open>null\<close>, a boolean, a number and a string, and
  on the other arrays and objects. For an absent, empty or otherwise falsy input the
  string is empty, and for every parseable timestamp (a string that is not empty and
  has a time) less than an hour before now it is \<open><1h\<close>, a timestamp after now
  included: the elapsed time is then negative. For a string that is not empty and
  has no time it is the text of NaN with the day suffix.
\<close>

theorem fmtAge_total:
  "(isl (fmtAge w v) \<longleftrightarrow> unconvertible v)
   \<and> (fmtAge w v = Inl e \<longrightarrow> e = TypeError)
   \<and> (\<not> unconvertible v \<longrightarrow> (\<exists>a. fmtAge w v = Inr a))
   \<and> (\<exists>a. fmtAge w (VStr s) = Inr a)
   \<and> (\<exists>a. fmtAge w (VNum q) = Inr a)
   \<and> (\<exists>a. fmtAge w (VInf negative) = Inr a)
   \<and> (\<exists>a. fmtAge w (VBool b) = Inr a)
   \<and> (falsy v \<longrightarrow> fmtAge w v = Inr '''')
   \<and> fmtAge w VUndefined = Inr ''''
   \<and> fmtAge w VNull = Inr ''''
   \<and> fmtAge w (VStr '''') = Inr ''''
   \<and> (s \<noteq> '''' \<and> parseDate w s = Some t \<and> now w - t < 3600000
        \<longrightarrow> fmtAge w (VStr s) = Inr ''<1h'')
   \<and> (s \<noteq> '''' \<and> parseDate w s = None \<longrightarrow> fmtAge w (VStr s) = Inr ''NaNd'')"
proof -
  have stale: "fmtAge w (VStr s) = Inr ''NaNd''" if "s \<noteq> ''''" "parseDate w s = None"
    using that by (simp add: fmtAge_def falsy_def date_value_def)
  have returns: "\<exists>a. fmtAge w u = Inr a" if "\<not> unconvertible u" for u
    using that fmtAge_throws [of w u] by (cases "fmtAge w u") simp_all
  have early: "fmtAge w u = Inr ''''" if "falsy u" for u
    using that by (simp add: fmtAge_def)
  have fresh: "fmtAge w (VStr s) = Inr ''<1h''"
    if "s \<noteq> ''''" "parseDate w s = Some t" "now w - t < 3600000"
    using that under_one_hour [of "now w - t"]
    by (simp add: fmtAge_def falsy_def date_value_def age_text_def Let_def)
  have "fmtAge w VUndefined = Inr ''''" "fmtAge w VNull = Inr ''''"
    "fmtAge w (VStr '''') = Inr ''''"
    by (simp_all add: early falsy_def)
  moreover have "\<exists>a. fmtAge w (VStr s) = Inr a" "\<exists>a. fmtAge w (VNum q) = Inr a"
    "\<exists>a. fmtAge w (VInf negative) = Inr a" "\<exists>a. fmtAge w (VBool b) = Inr a"
    by (simp_all add: returns)
  ultimately show ?thesis
    using fmtAge_throws [of w v] fmtAge_error [of w v e] returns [of v] early [of v] fresh
      stale
    by blast
qed

theorem fmtAge_total_witness:
  "fmtAge sample_world (VStr ''2026-02-26T04:00:00Z'') = Inr ''<1h''
   \<and> fmtAge sample_world (VStr ''2026-02-26T05:00:00Z'') = Inr ''<1h''
   \<and> now sample_world - 1772082000000 < 0
   \<and> fmtAge sample_world (VStr ''soon'') = Inr ''NaNd''
   \<and> fmtAge sample_world (VBool False) = Inr ''''
   \<and> (\<exists>a. fmtAge sample_world (VArr [VNum 2026, VNull, VObj []]) = Inr a)
   \<and> fmtAge sample_world (VArr [VStr ''x'', odd_object]) = Inl TypeError"
proof -
  have p: "''2026-02-26T04:00:00Z'' \<noteq> ''''"
    "parseDate sample_world ''2026-02-26T04:00:00Z'' = Some 1772078400000"
    "now sample_world - 1772078400000 < 3600000"
    "''2026-02-26T05:00:00Z'' \<noteq> ''''"
    "parseDate sample_world ''2026-02-26T05:00:00Z'' = Some 1772082000000"
    "now sample_world - 1772082000000 < 3600000"
    "now sample_world - 1772082000000 < 0"
    by (simp_all add: sample_world_def)
  have f: "falsy (VBool False)"
    by (simp add: falsy_def)
  have c: "\<not> unconvertible (VArr [VNum 2026, VNull, VObj []])"
    by simp
  have u: "unconvertible (VArr [VStr ''x'', odd_object])"
    by (simp add: odd_object_def)
  from fmtAge_total [of sample_world "VArr [VStr ''x'', odd_object]" _ "''''"] u
  have "isl (fmtAge sample_world (VArr [VStr ''x'', odd_object]))"
    and "\<And>e. fmtAge sample_world (VArr [VStr ''x'', odd_object]) = Inl e \<Longrightarrow> e = TypeError"
    by blast+
  then have 1: "fmtAge sample_world (VArr [VStr ''x'', odd_object]) = Inl TypeError"
    by (cases "fmtAge sample_world (VArr [VStr ''x'', odd_object])") auto
  from fmtAge_total [of sample_world "VArr [VNum 2026, VNull, VObj []]" _ "''''"] c
  have 2: "\<exists>a. fmtAge sample_world (VArr [VNum 2026, VNull, VObj []]) = Inr a"
    by blast
  from fmtAge_total [of sample_world "VBool False" _ "''''"] f
  have 3: "fmtAge sample_world (VBool False) = Inr ''''"
    by blast
  from fmtAge_total [of sample_world _ _ "''2026-02-26T04:00:00Z''" _ _ _ 1772078400000] p(1-3)
  have 4: "fmtAge sample_world (VStr ''2026-02-26T04:00:00Z'') = Inr ''<1h''"
    by blast
  from fmtAge_total [of sample_world _ _ "''2026-02-26T05:00:00Z''" _ _ _ 1772082000000] p(4-6)
  have 5: "fmtAge sample_world (VStr ''2026-02-26T05:00:00Z'') = Inr ''<1h''"
    by blast
  have n: "''soon'' \<noteq> ''''" "parseDate sample_world ''soon'' = None"
    by (simp_all add: sample_world_def)
  from fmtAge_total [of sample_world _ _ "''soon''"] n
  have 6: "fmtAge sample_world (VStr ''soon'') = Inr ''NaNd''"
    by blast
  from 1 2 3 4 5 6 p(7) show ?thesis
    by blast
qed

text \<open>
  C10 as the spec words it, for any input, fails: the feed can hold the object with the
  one property \<open>toString\<close> of value 1 as \<open>scrapedAt\<close>. It is truthy, and \<open>new Date\<close>
  throws a TypeError on it.
\<close>

theorem fmtAge_throws_counterexample:
  "fmtAge sample_world odd_object = Inl TypeError"
  by (simp add: fmtAge_def falsy_def date_value_def odd_object_def)

subsection \<open>Counts and rows\<close>













subsection \<open>The update history\<close>

lemma js_split_not_Nil: "js_split c s \<noteq> []"
  by (induction s) (simp_all split: list.splits)

lemma js_split_field:
  assumes "c \<notin> set h"
  shows "js_split c (h @ c # rest) = h # js_split c rest"
  using assms
proof (induction h)
  case Nil
  then show ?case by simp
next
  case (Cons x h)
  then show ?case by auto
qed

lemma js_join_split: "js_join [c] (js_split c s) = s"
proof (induction s)
  case Nil
  then show ?case by simp
next
  case (Cons x s)
  obtain p ps where ps: "js_split c s = p # ps"
    using js_split_not_Nil [of c s] by (cases "js_split c s") auto
  show ?case
  proof (cases "x = c")
    case True
    with Cons ps show ?thesis by simp
  next
    case False
    with Cons ps show ?thesis by (cases ps) simp_all
  qed
qed

lemma log_line_fields:
  assumes "CHR ''|'' \<notin> set h" and "CHR ''|'' \<notin> set d"
  shows "log_line (h @ ''|'' @ d @ ''|'' @ msg) = \<lparr>hash = h, date = Some d, message = msg\<rparr>"
proof -
  have "js_split (CHR ''|'') (h @ ''|'' @ d @ ''|'' @ msg)
          = h # d # js_split (CHR ''|'') msg"
    using js_split_field [OF assms(1), of "d @ ''|'' @ msg"]
      js_split_field [OF assms(2), of msg]
    by simp
  then show ?thesis
    using js_join_split [of "CHR ''|''" msg] by (simp add: log_line_def)
qed

lemma find_last:
  "find P (xs @ [x]) = (case find P xs of None \<Rightarrow> (if P x then Some x else None) | Some y \<Rightarrow> Some y)"
  by (induction xs) simp_all

lemma index_fold_find:
  "foldl (\<lambda>m e. case extractTimestamp (message e) of None \<Rightarrow> m | Some ts \<Rightarrow> m(ts \<mapsto> e))
         m0 entries ts
   = (case find (\<lambda>e. extractTimestamp (message e) = Some ts) (rev entries) of
        None \<Rightarrow> m0 ts
      | Some e \<Rightarrow> Some e)"
proof (induction entries arbitrary: m0)
  case Nil
  then show ?case by simp
next
  case (Cons e entries)
  show ?case
    by (cases "extractTimestamp (message e)")
       (auto simp: Cons.IH find_last split: option.splits)
qed

lemma index_by_timestamp_find:
  "index_by_timestamp entries ts
     = find (\<lambda>e. extractTimestamp (message e) = Some ts) (rev entries)"
  by (simp add: index_by_timestamp_def index_fold_find split: option.splits)

lemma find_None_set: "find P (rev xs) = None \<longleftrightarrow> \<not> (\<exists>x \<in> set xs. P x)"
  by (auto simp: find_None_iff)

lemma secondary_cell_placeholder: "secondary_cell t found = em_dash \<longleftrightarrow> found = None"
  by (cases found) (simp_all add: secondary_cell_def commit_link_def em_dash_def)

lemma history_rows_map:
  "history_rows E A entries =
     map (\<lambda>e. \<lparr>h_time = the (dated e),
                h_main = commit_link Main_repo (hash e) @ '' ''
                         @ the (extractJobCount (message e)),
                h_emea = secondary_cell Emea_repo (E (the (dated e))),
                h_apac = secondary_cell Apac_repo (A (the (dated e)))\<rparr>)
         (filter (\<lambda>e. dated e \<noteq> None) entries)"
  by (induction entries) (simp_all add: dated_def split: option.splits)

lemma history_of_map:
  "history_of mainLog emeaLog apacLog =
     map (\<lambda>e. \<lparr>h_time = the (dated e),
                h_main = commit_link Main_repo (hash e) @ '' ''
                         @ the (extractJobCount (message e)),
                h_emea = secondary_cell Emea_repo
                           (find (\<lambda>x. extractTimestamp (message x) = dated e) (rev emeaLog)),
                h_apac = secondary_cell Apac_repo
                           (find (\<lambda>x. extractTimestamp (message x) = dated e) (rev apacLog))\<rparr>)
         (filter (\<lambda>e. dated e \<noteq> None) mainLog)"
proof -
  have "find (\<lambda>x. extractTimestamp (message x) = Some (the (dated e))) (rev l)
          = find (\<lambda>x. extractTimestamp (message x) = dated e) (rev l)"
    if "dated e \<noteq> None" for e and l :: "log_entry list"
    using that by auto
  then show ?thesis
    by (simp add: history_of_def history_rows_map index_by_timestamp_find cong: map_cong)
qed

lemma history_of_cells:
  assumes "r \<in> set (history_of mainLog emeaLog apacLog)"
  shows "(h_emea r = em_dash
            \<longleftrightarrow> \<not> (\<exists>e \<in> set emeaLog. extractTimestamp (message e) = Some (h_time r)))
       \<and> (h_apac r = em_dash
            \<longleftrightarrow> \<not> (\<exists>e \<in> set apacLog. extractTimestamp (message e) = Some (h_time r)))"
proof -
  from assms obtain e where e: "dated e \<noteq> None"
    and r: "r = \<lparr>h_time = the (dated e),
                 h_main = commit_link Main_repo (hash e) @ '' ''
                          @ the (extractJobCount (message e)),
                 h_emea = secondary_cell Emea_repo
                            (index_by_timestamp emeaLog (the (dated e))),
                 h_apac = secondary_cell Apac_repo
                            (index_by_timestamp apacLog (the (dated e)))\<rparr>"
    by (auto simp: history_of_def history_rows_map)
  show ?thesis
    by (simp add: r secondary_cell_placeholder index_by_timestamp_find find_None_set)
qed

lemma extract_examples:
  "extractJobCount (''21,024 jobs | 3 with salary '' @ em_dash @ '' 26-Feb-2026 04:35 UTC'')
     = Some ''21,024''"
  "extractTimestamp (''21,024 jobs | 3 with salary '' @ em_dash @ '' 26-Feb-2026 04:35 UTC'')
     = Some ''26-Feb-2026 04:35 UTC''"
  "extractJobCount ''5,210 EMEA jobs | 12 with salary'' = Some ''5,210''"
  "extractJobCount ''Fix the table header'' = None"
  "extractTimestamp ''Fix the table header'' = None"
  by code_simp+

lemma readGitLog_reads:
  "readGitLog w repo limit =
     (case gitLog w repo limit of
        None \<Rightarrow> []
      | Some out \<Rightarrow>
          if js_trim out = [] then []
          else map log_line (js_split (CHR 0x0A) (js_trim out)))"
  by (simp add: readGitLog_def readGitLog_try_def Let_def split: option.splits)

lemma readGitLog_try_throws:
  "isl (readGitLog_try w repo limit) \<longleftrightarrow> gitLog w repo limit = None"
  by (simp add: readGitLog_try_def Let_def split: option.splits)

lemma buildHistoryTable_emits:
  "buildHistoryTable w =
     (if history_table_rows w = [] then ''''
      else ''## Update History'' @ [CHR 0x0A, CHR 0x0A]
           @ ''| Time (UTC) | Main | EMEA | APAC |'' @ [CHR 0x0A]
           @ ''|---|---|---|---|'' @ [CHR 0x0A]
           @ js_join [CHR 0x0A]
               (map (\<lambda>r. ''| '' @ h_time r @ '' | '' @ h_main r @ '' | '' @ h_emea r
                          @ '' | '' @ h_apac r @ '' |'')
                    (history_table_rows w))
           @ [CHR 0x0A])"
proof -
  have "render_row = (\<lambda>r. ''| '' @ h_time r @ '' | '' @ h_main r @ '' | '' @ h_emea r
                          @ '' | '' @ h_apac r @ '' |'')"
    by (rule ext) (simp add: render_row_def)
  then show ?thesis
    by (simp add: buildHistoryTable_def Let_def)
qed

text \<open>
  C8. The one statement of \<open>buildHistoryTable\<close> that can throw is the command in
  \<open>readGitLog\<close>, inside its \<open>try\<close>: nothing reaches the caller. \<open>readGitLog\<close> gives no
  entry when the command throws or prints nothing, and else one entry for each line of
  the trimmed output, with the hash before the first bar, the date before the second
  and the message after it. \<open>buildHistoryTable\<close> emits
  the empty text when there is no row, and else the heading and one line for each row.
  The rows are one for each entry of the log of the main target that carries a timestamp
  and a job count, in the order of the log: under that timestamp, with the link and
  the count of the entry, and for each secondary target with the cell of the last entry
  of its log that has the same timestamp. That cell is the placeholder exactly when
  the log of the target has no entry with the timestamp of the row. A log that cannot
  be read is read as the empty log: the table is empty when it is the log of the main
  target, and every row has the placeholder when it is the log of a secondary one.
  The examples of the script's comments are read as they say: \<open>21,024\<close> is the job
  count and \<open>26-Feb-2026 04:35 UTC\<close> the timestamp of the message that carries them.
\<close>

theorem history_matching:
  "(isl (readGitLog_try w repo limit) \<longleftrightarrow> gitLog w repo limit = None)
   \<and> readGitLog w repo limit =
     (case gitLog w repo limit of
        None \<Rightarrow> []
      | Some out \<Rightarrow>
          if js_trim out = [] then []
          else map log_line (js_split (CHR 0x0A) (js_trim out)))
   \<and> (CHR ''|'' \<notin> set h \<and> CHR ''|'' \<notin> set d \<longrightarrow>
        log_line (h @ ''|'' @ d @ ''|'' @ msg) = \<lparr>hash = h, date = Some d, message = msg\<rparr>)
   \<and> buildHistoryTable w =
       (if history_table_rows w = [] then ''''
        else ''## Update History'' @ [CHR 0x0A, CHR 0x0A]
             @ ''| Time (UTC) | Main | EMEA | APAC |'' @ [CHR 0x0A]
             @ ''|---|---|---|---|'' @ [CHR 0x0A]
             @ js_join [CHR 0x0A]
                 (map (\<lambda>r. ''| '' @ h_time r @ '' | '' @ h_main r @ '' | '' @ h_emea r
                            @ '' | '' @ h_apac r @ '' |'')
                      (history_table_rows w))
             @ [CHR 0x0A])
   \<and> history_table_rows w =
       map (\<lambda>e. \<lparr>h_time = the (dated e),
                  h_main = ''[`'' @ take 7 (hash e) @ ''`]('' @ GITHUB_REPOS Main_repo
                           @ ''/commit/'' @ hash e @ '') ''
                           @ the (extractJobCount (message e)),
                  h_emea = secondary_cell Emea_repo
                             (find (\<lambda>x. extractTimestamp (message x) = dated e)
                                   (rev (readGitLog w Emea_repo HISTORY_LIMIT))),
                  h_apac = secondary_cell Apac_repo
                             (find (\<lambda>x. extractTimestamp (message x) = dated e)
                                   (rev (readGitLog w Apac_repo HISTORY_LIMIT)))\<rparr>)
           (filter (\<lambda>e. dated e \<noteq> None) (readGitLog w Main_repo HISTORY_LIMIT))
   \<and> secondary_cell t None = em_dash
   \<and> secondary_cell t (Some x) =
       ''[`'' @ take 7 (hash x) @ ''`]('' @ GITHUB_REPOS t @ ''/commit/'' @ hash x @ '') ''
       @ (case extractJobCount (message x) of None \<Rightarrow> ''?'' | Some n \<Rightarrow> if n = [] then ''?'' else n)
   \<and> (\<forall>r \<in> set (history_table_rows w).
        (h_emea r = em_dash
           \<longleftrightarrow> \<not> (\<exists>e \<in> set (readGitLog w Emea_repo HISTORY_LIMIT).
                    extractTimestamp (message e) = Some (h_time r)))
        \<and> (h_apac r = em_dash
           \<longleftrightarrow> \<not> (\<exists>e \<in> set (readGitLog w Apac_repo HISTORY_LIMIT).
                    extractTimestamp (message e) = Some (h_time r))))
   \<and> (gitLog w Main_repo HISTORY_LIMIT = None \<longrightarrow> buildHistoryTable w = '''')
   \<and> (gitLog w Emea_repo HISTORY_LIMIT = None \<longrightarrow>
        (\<forall>r \<in> set (history_table_rows w). h_emea r = em_dash))
   \<and> (gitLog w Apac_repo HISTORY_LIMIT = None \<longrightarrow>
        (\<forall>r \<in> set (history_table_rows w). h_apac r = em_dash))
   \<and> extractJobCount (''21,024 jobs | 3 with salary '' @ em_dash @ '' 26-Feb-2026 04:35 UTC'')
       = Some ''21,024''
   \<and> extractTimestamp (''21,024 jobs | 3 with salary '' @ em_dash @ '' 26-Feb-2026 04:35 UTC'')
       = Some ''26-Feb-2026 04:35 UTC''
   \<and> extractJobCount ''5,210 EMEA jobs | 12 with salary'' = Some ''5,210''
   \<and> extractJobCount ''Fix the table header'' = None
   \<and> extractTimestamp ''Fix the table header'' = None"
proof -
  have rows: "history_table_rows w =
       map (\<lambda>e. \<lparr>h_time = the (dated e),
                  h_main = ''[`'' @ take 7 (hash e) @ ''`]('' @ GITHUB_REPOS Main_repo
                           @ ''/commit/'' @ hash e @ '') ''
                           @ the (extractJobCount (message e)),
                  h_emea = secondary_cell Emea_repo
                             (find (\<lambda>x. extractTimestamp (message x) = dated e)
                                   (rev (readGitLog w Emea_repo HISTORY_LIMIT))),
                  h_apac = secondary_cell Apac_repo
                             (find (\<lambda>x. extractTimestamp (message x) = dated e)
                                   (rev (readGitLog w Apac_repo HISTORY_LIMIT)))\<rparr>)
           (filter (\<lambda>e. dated e \<noteq> None) (readGitLog w Main_repo HISTORY_LIMIT))"
    by (simp add: history_table_rows_def history_of_map commit_link_def)
  have cell: "secondary_cell t None = em_dash"
    "secondary_cell t (Some x) =
       ''[`'' @ take 7 (hash x) @ ''`]('' @ GITHUB_REPOS t @ ''/commit/'' @ hash x @ '') ''
       @ (case extractJobCount (message x) of None \<Rightarrow> ''?'' | Some n \<Rightarrow> if n = [] then ''?'' else n)"
    by (simp_all add: secondary_cell_def commit_link_def or_else_def)
  have cells: "(h_emea r = em_dash
                  \<longleftrightarrow> \<not> (\<exists>e \<in> set (readGitLog w Emea_repo HISTORY_LIMIT).
                           extractTimestamp (message e) = Some (h_time r)))
             \<and> (h_apac r = em_dash
                  \<longleftrightarrow> \<not> (\<exists>e \<in> set (readGitLog w Apac_repo HISTORY_LIMIT).
                           extractTimestamp (message e) = Some (h_time r)))"
    if "r \<in> set (history_table_rows w)" for r
    using history_of_cells [OF that [unfolded history_table_rows_def]] .
  have unread: "readGitLog w repo' HISTORY_LIMIT = []"
    if "gitLog w repo' HISTORY_LIMIT = None" for repo'
    using that by (simp add: readGitLog_reads)
  have main_none: "gitLog w Main_repo HISTORY_LIMIT = None \<Longrightarrow> buildHistoryTable w = ''''"
    by (simp add: buildHistoryTable_emits rows unread)
  have emea_none: "h_emea r = em_dash"
    if "gitLog w Emea_repo HISTORY_LIMIT = None" "r \<in> set (history_table_rows w)" for r
    using cells [OF that(2)] unread [OF that(1)] by simp
  have apac_none: "h_apac r = em_dash"
    if "gitLog w Apac_repo HISTORY_LIMIT = None" "r \<in> set (history_table_rows w)" for r
    using cells [OF that(2)] unread [OF that(1)] by simp
  show ?thesis
    using readGitLog_try_throws [of w repo limit] readGitLog_reads [of w repo limit]
      log_line_fields [of h d msg]
      buildHistoryTable_emits [of w] rows cell cells main_none emea_none apac_none
      extract_examples
    by blast
qed

lemma sample_history_times:
  "map (\<lambda>e. the (dated e))
       (filter (\<lambda>e. dated e \<noteq> None) (readGitLog world_history Main_repo HISTORY_LIMIT))
     = [''26-Feb-2026 04:35 UTC'']"
  by code_simp

lemma sample_history_emea:
  "\<exists>e \<in> set (readGitLog world_history Emea_repo HISTORY_LIMIT).
     extractTimestamp (message e) = Some ''26-Feb-2026 04:35 UTC''"
  by code_simp

lemma sample_history_apac: "gitLog world_history Apac_repo HISTORY_LIMIT = None"
  by (simp add: world_history_def sample_world_def)

lemma sample_history_table:
  "buildHistoryTable world_history =
     ''## Update History'' @ [CHR 0x0A, CHR 0x0A]
     @ ''| Time (UTC) | Main | EMEA | APAC |'' @ [CHR 0x0A]
     @ ''|---|---|---|---|'' @ [CHR 0x0A]
     @ ''| 26-Feb-2026 04:35 UTC | ''
     @ ''[`a1b2c3d`](https://github.com/7-of-9/wagey-gg-remote-tech-jobs/commit/a1b2c3d4e5) 21,024''
     @ '' | ''
     @ ''[`e0e0e0e`](https://github.com/7-of-9/wagey-gg-remote-tech-emea-jobs/commit/e0e0e0e0e0) 5,210''
     @ '' | '' @ em_dash @ '' |'' @ [CHR 0x0A]"
  by code_simp

theorem history_matching_witness:
  "map h_time (history_table_rows world_history) = [''26-Feb-2026 04:35 UTC'']
   \<and> h_emea (hd (history_table_rows world_history)) \<noteq> em_dash
   \<and> h_apac (hd (history_table_rows world_history)) = em_dash
   \<and> readGitLog world_history Apac_repo HISTORY_LIMIT = []
   \<and> log_line (''a1b2c3d4e5'' @ ''|'' @ ''2026-02-26T04:35:02+00:00'' @ ''|''
                @ ''21,024 jobs | 3 with salary'')
       = \<lparr>hash = ''a1b2c3d4e5'', date = Some ''2026-02-26T04:35:02+00:00'',
          message = ''21,024 jobs | 3 with salary''\<rparr>
   \<and> buildHistoryTable world_history =
       ''## Update History'' @ [CHR 0x0A, CHR 0x0A]
       @ ''| Time (UTC) | Main | EMEA | APAC |'' @ [CHR 0x0A]
       @ ''|---|---|---|---|'' @ [CHR 0x0A]
       @ ''| 26-Feb-2026 04:35 UTC | ''
       @ ''[`a1b2c3d`](https://github.com/7-of-9/wagey-gg-remote-tech-jobs/commit/a1b2c3d4e5) 21,024''
       @ '' | ''
       @ ''[`e0e0e0e`](https://github.com/7-of-9/wagey-gg-remote-tech-emea-jobs/commit/e0e0e0e0e0) 5,210''
       @ '' | '' @ em_dash @ '' |'' @ [CHR 0x0A]"
proof -
  note facts = history_matching
    [where w = world_history and repo = Apac_repo and limit = HISTORY_LIMIT
       and h = "''a1b2c3d4e5''" and d = "''2026-02-26T04:35:02+00:00''"
       and msg = "''21,024 jobs | 3 with salary''"]
  have bars: "CHR ''|'' \<notin> set ''a1b2c3d4e5'' \<and> CHR ''|'' \<notin> set ''2026-02-26T04:35:02+00:00''"
    by simp
  from facts bars
  have line: "log_line (''a1b2c3d4e5'' @ ''|'' @ ''2026-02-26T04:35:02+00:00'' @ ''|''
                @ ''21,024 jobs | 3 with salary'')
       = \<lparr>hash = ''a1b2c3d4e5'', date = Some ''2026-02-26T04:35:02+00:00'',
          message = ''21,024 jobs | 3 with salary''\<rparr>"
    by blast
  from facts have "history_table_rows world_history =
       map (\<lambda>e. \<lparr>h_time = the (dated e),
                  h_main = ''[`'' @ take 7 (hash e) @ ''`]('' @ GITHUB_REPOS Main_repo
                           @ ''/commit/'' @ hash e @ '') ''
                           @ the (extractJobCount (message e)),
                  h_emea = secondary_cell Emea_repo
                             (find (\<lambda>x. extractTimestamp (message x) = dated e)
                                   (rev (readGitLog world_history Emea_repo HISTORY_LIMIT))),
                  h_apac = secondary_cell Apac_repo
                             (find (\<lambda>x. extractTimestamp (message x) = dated e)
                                   (rev (readGitLog world_history Apac_repo HISTORY_LIMIT)))\<rparr>)
           (filter (\<lambda>e. dated e \<noteq> None) (readGitLog world_history Main_repo HISTORY_LIMIT))"
    by blast
  then have "map h_time (history_table_rows world_history)
               = map (\<lambda>e. the (dated e))
                   (filter (\<lambda>e. dated e \<noteq> None)
                      (readGitLog world_history Main_repo HISTORY_LIMIT))"
    by (simp add: o_def)
  with sample_history_times
  have times: "map h_time (history_table_rows world_history) = [''26-Feb-2026 04:35 UTC'']"
    by simp
  then obtain r where r: "history_table_rows world_history = [r]"
    and t: "h_time r = ''26-Feb-2026 04:35 UTC''"
    by (cases "history_table_rows world_history") auto
  from r have member: "r \<in> set (history_table_rows world_history)"
    by simp
  with facts have
    "h_emea r = em_dash
       \<longleftrightarrow> \<not> (\<exists>e \<in> set (readGitLog world_history Emea_repo HISTORY_LIMIT).
                extractTimestamp (message e) = Some (h_time r))"
    by blast
  with sample_history_emea t have emea: "h_emea r \<noteq> em_dash"
    by simp
  from facts sample_history_apac member have apac: "h_apac r = em_dash"
    by blast
  from facts sample_history_apac
  have gone: "readGitLog world_history Apac_repo HISTORY_LIMIT = []"
    by simp
  from times emea apac gone r line sample_history_table show ?thesis
    by simp
qed

end
